(* ===== verification/Etl_Prelude.thy ===== *)
theory Etl_Prelude
  imports Complex_Main "HOL-Library.Multiset"
begin

text \<open>
  Shared vocabulary of the ETL development: the collection \<open>etl_simps\<close> of evaluation
  rules that the component theories add to, the error type that every fallible operation
  of \<^verbatim>\<open>src/functions.py\<close> and \<^verbatim>\<open>src/etl.py\<close> returns on its \<open>Inl\<close> side, and the
  decimal digit strings that Python's \<^verbatim>\<open>int\<close>, \<^verbatim>\<open>str\<close> and \<^verbatim>\<open>strftime\<close> read and
  print (used for timestamps, configuration values and archive file names).
\<close>

named_theorems etl_simps "evaluation rules of the ETL model's operations"

subsection \<open>Errors\<close>

text \<open>
  The exceptions the program can raise. \<open>RequestException\<close> is what
  \<^verbatim>\<open>requests.get\<close>, \<^verbatim>\<open>raise_for_status\<close> or \<^verbatim>\<open>r.json()\<close> raised on the last attempt;
  \<open>Unmodelled\<close> marks inputs outside the domain of the model (stated where it is used).
\<close>

datatype fetch_error = ConnectionError | Timeout | HTTPError nat | JSONDecodeError

datatype error =
    RequestException fetch_error
  | AttributeError string
  | ValueError string
  | KeyError "string list"
  | OSError string
  | DBError string
  | Unmodelled string

subsection \<open>Decimal digits\<close>

definition digit_val :: "char \<Rightarrow> nat option" where
  "digit_val c = (let n = of_char c :: nat in if 48 \<le> n \<and> n \<le> 57 then Some (n - 48) else None)"

fun digits_acc :: "nat \<Rightarrow> string \<Rightarrow> nat option" where
  "digits_acc acc [] = Some acc"
| "digits_acc acc (c # cs) =
     (case digit_val c of None \<Rightarrow> None | Some d \<Rightarrow> digits_acc (10 * acc + d) cs)"

text \<open>A non-empty string of ASCII digits read as a number (\<^verbatim>\<open>int(s)\<close> on such strings).\<close>

definition nat_of_digits :: "string \<Rightarrow> nat option" where
  "nat_of_digits s = (if s = [] then None else digits_acc 0 s)"

text \<open>\<^verbatim>\<open>str(n)\<close> for a natural number.\<close>

fun show_nat :: "nat \<Rightarrow> string" where
  "show_nat n = (if n < 10 then [char_of (48 + n)] else show_nat (n div 10) @ [char_of (48 + n mod 10)])"

text \<open>Zero padding to a minimum width, as \<^verbatim>\<open>%02d\<close> and the \<^verbatim>\<open>strftime\<close> fields do.\<close>

definition zero_pad :: "nat \<Rightarrow> string \<Rightarrow> string" where
  "zero_pad k s = replicate (k - length s) (CHR ''0'') @ s"

declare show_nat.simps [simp del]

lemma digit_val_char_of [simp]: "d < 10 \<Longrightarrow> digit_val (char_of (48 + d)) = Some d"
  by (simp add: digit_val_def of_char_of)

lemma digits_acc_append:
  "digits_acc acc (xs @ ys) = (case digits_acc acc xs of None \<Rightarrow> None | Some a \<Rightarrow> digits_acc a ys)"
  by (induction acc xs rule: digits_acc.induct) (auto split: option.splits)

lemma show_nat_nonempty [simp]: "show_nat n \<noteq> []"
  by (subst show_nat.simps) simp

lemma digits_acc_show_nat: "digits_acc acc (show_nat n) = Some (acc * 10 ^ length (show_nat n) + n)"
proof (induction n arbitrary: acc rule: show_nat.induct)
  case (1 n)
  show ?case
  proof (cases "n < 10")
    case True
    then show ?thesis by (subst (1 2) show_nat.simps) simp
  next
    case False
    then have "show_nat n = show_nat (n div 10) @ [char_of (48 + n mod 10)]"
      by (subst show_nat.simps) simp
    with False "1.IH" show ?thesis
      by (simp add: digits_acc_append algebra_simps)
  qed
qed

lemma digits_acc_zeros [simp]: "digits_acc 0 (replicate k (CHR ''0'') @ s) = digits_acc 0 s"
  by (induction k) (simp_all add: digit_val_def)

text \<open>Printing then reading a number gives it back, with or without padding.\<close>

lemma nat_of_digits_show_nat [simp]: "nat_of_digits (show_nat n) = Some n"
  by (simp add: nat_of_digits_def digits_acc_show_nat)

lemma nat_of_digits_zero_pad [simp]: "nat_of_digits (zero_pad k (show_nat n)) = Some n"
  by (simp add: nat_of_digits_def zero_pad_def digits_acc_show_nat)

lemma length_zero_pad: "length s \<le> k \<Longrightarrow> length (zero_pad k s) = k"
  by (simp add: zero_pad_def)

subsection \<open>Lists and multisets\<close>

lemma upt_Suc_shift: "[0..<Suc n] = 0 # map Suc [0..<n]"
  by (simp only: upt_conv_Cons [OF zero_less_Suc] map_Suc_upt)

lemma subset_mset_add_mset_right [intro]: "A \<subseteq># B \<Longrightarrow> A \<subseteq># add_mset x B"
  by (metis add_mset_add_single mset_subset_eq_add_left subset_mset.order_trans)

end
