(* ===== verification/Json.thy ===== *)
theory Json
  imports Etl_Prelude
begin

text \<open>
  JSON values as \<^verbatim>\<open>r.json()\<close> returns them to \<^verbatim>\<open>src/functions.py\<close>: Python's
  \<^verbatim>\<open>None\<close>, \<^verbatim>\<open>bool\<close>, \<^verbatim>\<open>int\<close>, \<^verbatim>\<open>float\<close>, \<^verbatim>\<open>str\<close>, \<^verbatim>\<open>list\<close> and \<^verbatim>\<open>dict\<close>.
  A dict is the list of its items in document order; \<^verbatim>\<open>json.loads\<close> keeps the last value
  of a repeated key, so lookup reads the item list from the end. Python's \<^verbatim>\<open>None\<close>
  returned by a function that falls off its end is \<open>JNull\<close> too.
\<close>

datatype jval =
    JNull
  | JBool bool
  | JInt int
  | JFloat real
  | JStr string
  | JArr "jval list"
  | JObj "(string \<times> jval) list"

text \<open>\<^verbatim>\<open>d.get(key, default)\<close>: a method of dicts only; any other value has no
  attribute \<^verbatim>\<open>get\<close>.\<close>

fun py_get :: "jval \<Rightarrow> string \<Rightarrow> jval \<Rightarrow> error + jval" where
  "py_get (JObj kvs) k dflt = Inr (case map_of (rev kvs) k of None \<Rightarrow> dflt | Some v \<Rightarrow> v)"
| "py_get _ k dflt = Inl (AttributeError ''get'')"

lemma py_get_JObj_Cons [etl_simps]:
  "py_get (JObj ((k', v) # kvs)) k dflt =
     (case map_of (rev kvs) k of None \<Rightarrow> Inr (if k' = k then v else dflt) | Some u \<Rightarrow> Inr u)"
  by (auto simp: map_of_append map_add_def split: option.splits)

lemma py_get_JObj_Nil [etl_simps]: "py_get (JObj []) k dflt = Inr dflt"
  by simp

lemma py_get_Inl_iff: "(\<exists>e. py_get v k d = Inl e) \<longleftrightarrow> (\<forall>kvs. v \<noteq> JObj kvs)"
  by (cases v) auto

end
