(* ===== verification/Frame.thy ===== *)
theory Frame
  imports Json
begin

text \<open>
  The tabular data the pipeline moves between stages. A pandas DataFrame of
  \<^verbatim>\<open>transform_weather_hourly\<close> has the column list and one row per index position;
  each row holds the three coerced cells: a timestamp or \<^verbatim>\<open>NaT\<close> (\<open>None\<close>) and two
  floats or \<^verbatim>\<open>NaN\<close> (\<open>None\<close>). The row index that pandas carries is dropped by every
  writer of the program (\<^verbatim>\<open>index=False\<close>), so it is not modelled.
\<close>

text \<open>A timestamp: year, month, day, hour, minute, second.\<close>

datatype timestamp = Timestamp nat nat nat nat nat nat

record row =
  time :: "timestamp option"
  temperature_2m :: "real option"
  relative_humidity_2m :: "real option"

record frame =
  df_columns :: "string list"
  df_rows :: "row list"

text \<open>The columns \<^verbatim>\<open>transform_weather_hourly\<close> builds, in its dict's order.\<close>

definition weather_columns :: "string list" where
  "weather_columns = [''time'', ''temperature_2m'', ''relative_humidity_2m'']"

end
