(* ===== verification/Schema.thy ===== *)
theory Schema
  imports Frame
begin

text \<open>
  \<^verbatim>\<open>src/schema.py\<close>: the static descriptor of the target table. The dict becomes a record;
  \<^verbatim>\<open>valid_ranges\<close> is a dict from column to an inclusive (min, max) pair, kept as its
  item list.
\<close>

record schema =
  table_name :: string
  primary_key :: string
  required_columns :: "string list"
  numeric_columns :: "string list"
  valid_ranges :: "(string \<times> int \<times> int) list"

definition WEATHER_HOURLY_SCHEMA :: schema where
  "WEATHER_HOURLY_SCHEMA =
     \<lparr>table_name = ''weather_hourly'',
      primary_key = ''time'',
      required_columns = [''time'', ''temperature_2m'', ''relative_humidity_2m''],
      numeric_columns = [''temperature_2m'', ''relative_humidity_2m''],
      valid_ranges = [(''relative_humidity_2m'', 0, 100)]\<rparr>"

end
