(* ===== verification/World.thy ===== *)
theory World
  imports Frame
begin

text \<open>
  The part of the outside world the program reads and changes, threaded through every
  operation as explicit state (the world-passing style of an IO monad, with the world
  made concrete): directories and files (\<^verbatim>\<open>os.makedirs\<close>, \<^verbatim>\<open>open(..., "w")\<close>), the
  SQLite databases (\<^verbatim>\<open>to_sql\<close>), the log stream of the \<^verbatim>\<open>etl\<close> logger, the sleeps of
  the retry loop, the network (the response to the \<open>k\<close>-th request of the run), the UTC
  clock, the process environment after \<^verbatim>\<open>load_dotenv()\<close>, and the paths where the
  operating system refuses a write (full disk, permissions).
  An operation is a function from the world to a result (an error or a value) and the
  new world: \<open>'a eff\<close>. An error keeps the world as it was when the exception was
  raised, so effects before the failure persist, as they do in Python.
\<close>

datatype level = INFO | WARNING

text \<open>The log lines of the program, one constructor per \<^verbatim>\<open>logger\<close> call, with the values
  its f-string interpolates.\<close>

datatype log_event =
    ExtractAttempt string nat jval
  | ExtractFailed nat error
  | ArchivedRaw string
  | Transformed nat "string list"
  | QualityReport nat nat nat
  | RejectsSaved string
  | LoadedRows nat string string
  | Completed

text \<open>What a file holds: the JSON document \<^verbatim>\<open>json.dump\<close> wrote, the CSV table
  \<^verbatim>\<open>to_csv\<close> wrote (header, then one line per row), or the log file a
  \<^verbatim>\<open>logging.FileHandler\<close> created (its lines are the world's log).\<close>

datatype content = JsonFile jval | CsvFile "string list" "row list" | LogFile

datatype sql_table = SqlTable "string list" "row list"

text \<open>One network exchange: a transport failure, or a response with its status code and
  its body decoded as JSON (\<open>None\<close> when the body is not JSON).\<close>

datatype fetch_outcome = NetFailure fetch_error | Response nat "jval option"

record world =
  w_dirs :: "string set"
  w_files :: "string \<rightharpoonup> content"
  w_dbs :: "string \<Rightarrow> string \<rightharpoonup> sql_table"
  w_log :: "(level \<times> log_event) list"
  w_sleeps :: "nat list"
  w_requests :: nat
  w_net :: "nat \<Rightarrow> fetch_outcome"
  w_now :: timestamp
  w_env :: "string \<rightharpoonup> string"
  w_faulty :: "string set"

type_synonym 'a eff = "world \<Rightarrow> (error + 'a) \<times> world"

subsection \<open>Sequencing\<close>

definition eret :: "'a \<Rightarrow> 'a eff" where
  "eret x w = (Inr x, w)"

definition eraise :: "error \<Rightarrow> 'a eff" where
  "eraise e w = (Inl e, w)"

text \<open>Run \<open>m\<close>, then \<open>f\<close> on its value; an exception of \<open>m\<close> skips \<open>f\<close>.\<close>

definition ebind :: "'a eff \<Rightarrow> ('a \<Rightarrow> 'b eff) \<Rightarrow> 'b eff" where
  "ebind m f w = (case m w of (Inl e, w') \<Rightarrow> (Inl e, w') | (Inr x, w') \<Rightarrow> f x w')"

text \<open>\<^verbatim>\<open>try: m except Exception as e: h(e)\<close>.\<close>

definition ecatch :: "'a eff \<Rightarrow> (error \<Rightarrow> 'a eff) \<Rightarrow> 'a eff" where
  "ecatch m h w = (case m w of (Inl e, w') \<Rightarrow> h e w' | (Inr x, w') \<Rightarrow> (Inr x, w'))"

text \<open>Reading a part of the world (the clock, the environment).\<close>

definition ereads :: "(world \<Rightarrow> 'a) \<Rightarrow> 'a eff" where
  "ereads f w = (Inr (f w), w)"

text \<open>A pure computation that may raise, lifted to an operation.\<close>

definition elift :: "error + 'a \<Rightarrow> 'a eff" where
  "elift r w = (r, w)"

subsection \<open>Logging and sleeping\<close>

definition log_msg :: "level \<Rightarrow> log_event \<Rightarrow> unit eff" where
  "log_msg l e w = (Inr (), w\<lparr>w_log := w_log w @ [(l, e)]\<rparr>)"

definition sleep :: "nat \<Rightarrow> unit eff" where
  "sleep n w = (Inr (), w\<lparr>w_sleeps := w_sleeps w @ [n]\<rparr>)"

subsection \<open>Paths and the file system\<close>

text \<open>\<^verbatim>\<open>os.path.dirname\<close> (posixpath): everything up to the last slash, with trailing
  slashes removed unless the head is all slashes.\<close>

definition dirname :: "string \<Rightarrow> string" where
  "dirname p =
     (let head = rev (dropWhile (\<lambda>c. c \<noteq> CHR ''/'') (rev p))
      in if head \<noteq> [] \<and> (\<exists>c\<in>set head. c \<noteq> CHR ''/'')
         then rev (dropWhile (\<lambda>c. c = CHR ''/'') (rev head)) else head)"

text \<open>\<^verbatim>\<open>os.path.join(a, b)\<close> (posixpath, two arguments).\<close>

definition path_join :: "string \<Rightarrow> string \<Rightarrow> string" where
  "path_join a b =
     (if b \<noteq> [] \<and> hd b = CHR ''/'' then b
      else if a = [] \<or> last a = CHR ''/'' then a @ b
      else a @ ''/'' @ b)"

text \<open>The directories \<^verbatim>\<open>os.makedirs(p)\<close> creates: every proper prefix of \<open>p\<close> that ends
  before a slash, and \<open>p\<close> itself.\<close>

definition dir_chain :: "string \<Rightarrow> string list" where
  "dir_chain p = [take i p. i \<leftarrow> [1..<length p], p ! i = CHR ''/''] @ [p]"

definition dir_exists :: "world \<Rightarrow> string \<Rightarrow> bool" where
  "dir_exists w d \<longleftrightarrow> d = [] \<or> d = ''.'' \<or> d = ''/'' \<or> d \<in> w_dirs w"

text \<open>
  \<^verbatim>\<open>os.makedirs(p, exist_ok=True)\<close>: \<^verbatim>\<open>mkdir('')\<close> raises \<^verbatim>\<open>FileNotFoundError\<close>;
  a prefix that is an existing file raises; otherwise the chain exists afterwards.
\<close>

definition makedirs :: "string \<Rightarrow> unit eff" where
  "makedirs p w =
     (if p = [] then (Inl (OSError p), w)
      else if \<exists>d\<in>set (dir_chain p). w_files w d \<noteq> None then (Inl (OSError p), w)
      else (Inr (), w\<lparr>w_dirs := w_dirs w \<union> set (dir_chain p)\<rparr>))"

text \<open>\<^verbatim>\<open>open(p, "w")\<close> and a complete write: the parent directory must exist, \<open>p\<close> must
  not be a directory, and the system may refuse the path. The file is replaced whole.\<close>

definition write_file :: "string \<Rightarrow> content \<Rightarrow> unit eff" where
  "write_file p c w =
     (if p \<in> w_faulty w \<or> p \<in> w_dirs w \<or> \<not> dir_exists w (dirname p)
      then (Inl (OSError p), w)
      else (Inr (), w\<lparr>w_files := (w_files w)(p \<mapsto> c)\<rparr>))"

text \<open>\<^verbatim>\<open>open(p, "a")\<close>, as \<^verbatim>\<open>logging.FileHandler(p)\<close> does when it is built:
  the same failures as a write; an absent file is created empty, an existing one is kept
  (the lines appended later are the world's log, not tracked in the file's content).\<close>

definition open_append :: "string \<Rightarrow> unit eff" where
  "open_append p w =
     (if p \<in> w_faulty w \<or> p \<in> w_dirs w \<or> \<not> dir_exists w (dirname p)
      then (Inl (OSError p), w)
      else (Inr (), w\<lparr>w_files := (w_files w)(p := Some (case w_files w p of None \<Rightarrow> LogFile | Some c \<Rightarrow> c))\<rparr>))"

text \<open>A world to start runs from in the examples: nothing on disk, no database, an
  empty log, a network that refuses every connection, an empty environment.\<close>

definition initial_world :: world where
  "initial_world =
     \<lparr>w_dirs = {}, w_files = Map.empty, w_dbs = (\<lambda>_. Map.empty), w_log = [], w_sleeps = [],
      w_requests = 0, w_net = (\<lambda>_. NetFailure ConnectionError),
      w_now = Timestamp 2024 1 1 0 0 0, w_env = Map.empty, w_faulty = {}\<rparr>"

subsection \<open>Laws of sequencing\<close>

lemma ebind_eret [simp]: "ebind (eret x) f = f x"
  by (simp add: ebind_def eret_def fun_eq_iff)

lemma ebind_eret_right [simp]: "ebind m eret = m"
  by (simp add: ebind_def eret_def fun_eq_iff split: prod.splits sum.splits)

lemma ebind_eraise [simp]: "ebind (eraise e) f = eraise e"
  by (simp add: ebind_def eraise_def fun_eq_iff)

lemma ebind_assoc: "ebind (ebind m f) g = ebind m (\<lambda>x. ebind (f x) g)"
  by (simp add: ebind_def fun_eq_iff split: prod.splits sum.splits)

lemma ebind_apply [etl_simps]:
  "ebind m f w = (case m w of (Inl e, w') \<Rightarrow> (Inl e, w') | (Inr x, w') \<Rightarrow> f x w')"
  by (simp add: ebind_def)

lemma ecatch_apply [etl_simps]:
  "ecatch m h w = (case m w of (Inl e, w') \<Rightarrow> h e w' | (Inr x, w') \<Rightarrow> (Inr x, w'))"
  by (simp add: ecatch_def)

lemma elift_apply [etl_simps]: "elift r w = (r, w)"
  by (simp add: elift_def)

lemma ereads_apply [etl_simps]: "ereads f w = (Inr (f w), w)"
  by (simp add: ereads_def)

lemma eret_apply [etl_simps]: "eret x w = (Inr x, w)"
  by (simp add: eret_def)

lemma eraise_apply [etl_simps]: "eraise e w = (Inl e, w)"
  by (simp add: eraise_def)

text \<open>Cases of a sequenced run that returned a value or an error.\<close>

lemma ebind_Inr_E:
  assumes "ebind m f w = (Inr y, w')"
  obtains x w1 where "m w = (Inr x, w1)" and "f x w1 = (Inr y, w')"
  using assms by (auto simp: ebind_def split: prod.splits sum.splits)

lemma ebind_Inl_E:
  assumes "ebind m f w = (Inl e, w')"
  obtains "m w = (Inl e, w')"
  | x w1 where "m w = (Inr x, w1)" and "f x w1 = (Inl e, w')"
  using assms by (auto simp: ebind_def split: prod.splits sum.splits)

subsection \<open>Effects\<close>

lemmas eff_defs [etl_simps] = log_msg_def sleep_def

lemma makedirs_dir_exists:
  assumes "makedirs p w = (Inr (), w')"
  shows "dir_exists w' p"
  using assms by (auto simp: makedirs_def dir_chain_def dir_exists_def split: if_splits)


lemma makedirs_Inr_E:
  assumes "makedirs p w = (r, w')" and "r = Inr u"
  shows "w' = w\<lparr>w_dirs := w_dirs w \<union> set (dir_chain p)\<rparr> \<and> p \<noteq> []"
  using assms by (auto simp: makedirs_def split: if_splits)

lemma makedirs_Inl_E:
  assumes "makedirs p w = (Inl e, w')"
  shows "w' = w"
  using assms by (auto simp: makedirs_def split: if_splits)

lemma makedirs_empty [simp]: "makedirs [] w = (Inl (OSError []), w)"
  by (simp add: makedirs_def)

lemma write_file_Inr_E:
  assumes "write_file p c w = (r, w')" and "r = Inr u"
  shows "w' = w\<lparr>w_files := (w_files w)(p \<mapsto> c)\<rparr>"
  using assms by (auto simp: write_file_def split: if_splits)

lemma write_file_Inl_E:
  assumes "write_file p c w = (Inl e, w')"
  shows "w' = w"
  using assms by (auto simp: write_file_def split: if_splits)

lemma open_append_Inr_E:
  assumes "open_append p w = (Inr u, w')"
  shows "w_files w' p \<noteq> None \<and> w' = w\<lparr>w_files := (w_files w)(p := Some (case w_files w p of None \<Rightarrow> LogFile | Some c \<Rightarrow> c))\<rparr>"
  using assms by (auto simp: open_append_def split: if_splits option.splits)

lemma open_append_Inl_E:
  assumes "open_append p w = (Inl e, w')"
  shows "w' = w"
  using assms by (auto simp: open_append_def split: if_splits)

lemma path_join_inj:
  assumes "path_join a b1 = path_join a b2" and "b1 \<noteq> []" and "b2 \<noteq> []" and "hd b1 = hd b2"
  shows "b1 = b2"
  using assms by (auto simp: path_join_def split: if_splits)

end
