(* ===== verification/Quality.thy ===== *)
theory Quality
  imports Schema World "HOL-Library.Sublist"
begin

text \<open>
  \<^verbatim>\<open>quality_checks\<close> (\<^verbatim>\<open>src/functions.py\<close>, lines 98--115): the validation mask
  \<^verbatim>\<open>ok\<close>, the split of the frame into the rows that pass and the rows that do not, and
  \<^verbatim>\<open>drop_duplicates(subset=["time"], keep="first")\<close> on the passing rows, followed by one
  log line with the three counts. \<open>drop_duplicates\<close> is modelled as pandas computes it
  (one pass with the set of keys seen so far); \<open>first_occurrences\<close> is the reference
  reading (a row survives iff no earlier row has its key) and the two are proved equal.
\<close>

subsection \<open>The validation mask (line 106)\<close>

text \<open>\<^verbatim>\<open>df["time"].notna() & df["relative_humidity_2m"].between(0, 100, inclusive="both")\<close>:
  a \<^verbatim>\<open>NaN\<close> humidity is not between the bounds.\<close>

definition row_ok :: "row \<Rightarrow> bool" where
  "row_ok r \<longleftrightarrow> time r \<noteq> None \<and>
     (case relative_humidity_2m r of None \<Rightarrow> False | Some h \<Rightarrow> 0 \<le> h \<and> h \<le> 100)"

subsection \<open>Deduplication (line 112)\<close>

fun drop_duplicates_seen :: "timestamp option set \<Rightarrow> row list \<Rightarrow> row list" where
  "drop_duplicates_seen seen [] = []"
| "drop_duplicates_seen seen (r # rs) =
     (if time r \<in> seen then drop_duplicates_seen seen rs
      else r # drop_duplicates_seen (insert (time r) seen) rs)"

definition drop_duplicates :: "row list \<Rightarrow> row list" where
  "drop_duplicates rs = drop_duplicates_seen {} rs"

definition first_occurrences :: "row list \<Rightarrow> row list" where
  "first_occurrences rs =
     map (nth rs) (filter (\<lambda>i. \<forall>j<i. time (rs ! j) \<noteq> time (rs ! i)) [0..<length rs])"

subsection \<open>The operation (lines 98--115)\<close>

text \<open>
  Selecting a column that the frame lacks raises \<^verbatim>\<open>KeyError\<close> before anything is
  logged (\<^verbatim>\<open>df["time"]\<close> is evaluated first). The rejected rows are the complement of
  the mask, unmodified; the accepted rows are the mask's rows after deduplication; the log
  line reports the accepted, rejected and removed counts.
\<close>

definition quality_checks :: "frame \<Rightarrow> (frame \<times> frame) eff" where
  "quality_checks df =
     (if ''time'' \<notin> set (df_columns df) then eraise (KeyError [''time''])
      else if ''relative_humidity_2m'' \<notin> set (df_columns df)
      then eraise (KeyError [''relative_humidity_2m''])
      else
        (let rejected = df\<lparr>df_rows := filter (\<lambda>r. \<not> row_ok r) (df_rows df)\<rparr>;
             clean = df\<lparr>df_rows := filter row_ok (df_rows df)\<rparr>;
             before = length (df_rows clean);
             clean' = clean\<lparr>df_rows := drop_duplicates (df_rows clean)\<rparr>
         in ebind (log_msg INFO (QualityReport (length (df_rows clean')) (length (df_rows rejected))
                                   (before - length (df_rows clean'))))
              (\<lambda>_. eret (clean', rejected))))"

subsection \<open>The contract of the specification\<close>

text \<open>
  The specification states the rule from the schema: a row is accepted iff its primary
  key is non-null and every column of \<^verbatim>\<open>valid_ranges\<close> lies within its inclusive bounds.
  \<open>cell_num\<close> reads a numeric column of a row by name.
\<close>

definition cell_num :: "row \<Rightarrow> string \<Rightarrow> real option" where
  "cell_num r c =
     (if c = ''temperature_2m'' then temperature_2m r
      else if c = ''relative_humidity_2m'' then relative_humidity_2m r else None)"

definition schema_row_valid :: "schema \<Rightarrow> row \<Rightarrow> bool" where
  "schema_row_valid sch r \<longleftrightarrow>
     (primary_key sch = ''time'' \<longrightarrow> time r \<noteq> None) \<and>
     list_all (\<lambda>(c, lo, hi). case cell_num r c of None \<Rightarrow> False
                                 | Some v \<Rightarrow> of_int lo \<le> v \<and> v \<le> of_int hi) (valid_ranges sch)"

text \<open>The three rows of the scenario of the specification (section 8), as
  \<^verbatim>\<open>transform_weather_hourly\<close> produces them.\<close>

definition scenario_frame :: frame where
  "scenario_frame =
     \<lparr>df_columns = weather_columns,
      df_rows = [\<lparr>time = Some (Timestamp 2024 1 1 0 0 0), temperature_2m = Some 25, relative_humidity_2m = Some 150\<rparr>,
                 \<lparr>time = Some (Timestamp 2024 1 1 0 0 0), temperature_2m = Some 25, relative_humidity_2m = Some 60\<rparr>,
                 \<lparr>time = Some (Timestamp 2024 1 1 1 0 0), temperature_2m = Some 26.5, relative_humidity_2m = Some 70\<rparr>]\<rparr>"

subsection \<open>Deduplication: the facts the properties share\<close>

lemma drop_duplicates_seen_nth:
  "drop_duplicates_seen S rs =
     map (nth rs) (filter (\<lambda>i. time (rs ! i) \<notin> S \<and> (\<forall>j<i. time (rs ! j) \<noteq> time (rs ! i))) [0..<length rs])"
proof (induction rs arbitrary: S)
  case Nil
  then show ?case by simp
next
  case (Cons r rs)
  let ?P = "\<lambda>S' rs i. time (rs ! i) \<notin> S' \<and> (\<forall>j<i. time (rs ! j) \<noteq> time (rs ! i))"
  have step: "(\<forall>j<Suc i. time ((r # rs) ! j) \<noteq> time (rs ! i)) \<longleftrightarrow>
               time r \<noteq> time (rs ! i) \<and> (\<forall>j<i. time (rs ! j) \<noteq> time (rs ! i))" for i
    by (auto simp: less_Suc_eq_0_disj)
  have idx: "[0..<length (r # rs)] = 0 # map Suc [0..<length rs]"
    by (simp only: length_Cons upt_Suc_shift)
  have filt: "filter (?P S (r # rs)) [0..<length (r # rs)] =
        (if time r \<in> S then [] else [0]) @ map Suc (filter (?P (insert (time r) S) rs) [0..<length rs])"
    unfolding idx by (auto simp: filter_map comp_def step intro!: filter_cong)
  have "drop_duplicates_seen S (r # rs) =
        (if time r \<in> S then [] else [r]) @ map (nth rs) (filter (?P (insert (time r) S) rs) [0..<length rs])"
  proof (cases "time r \<in> S")
    case True
    then have "insert (time r) S = S" by (rule insert_absorb)
    with True Cons.IH [of S] show ?thesis by simp
  next
    case False
    with Cons.IH [of "insert (time r) S"] show ?thesis by simp
  qed
  then show ?case
    unfolding filt by (simp add: comp_def)
qed

lemma subseq_drop_duplicates_seen: "subseq (drop_duplicates_seen S rs) rs"
  by (induction S rs rule: drop_duplicates_seen.induct) auto

lemma keys_drop_duplicates_seen:
  "time ` set (drop_duplicates_seen S rs) = time ` set rs - S"
  by (induction S rs rule: drop_duplicates_seen.induct) auto

lemma distinct_drop_duplicates_seen: "distinct (map time (drop_duplicates_seen S rs))"
  by (induction S rs rule: drop_duplicates_seen.induct) (auto simp: keys_drop_duplicates_seen)

lemma drop_duplicates_seen_id:
  "distinct (map time rs) \<Longrightarrow> time ` set rs \<inter> S = {} \<Longrightarrow> drop_duplicates_seen S rs = rs"
  by (induction S rs rule: drop_duplicates_seen.induct) auto

lemma mset_drop_duplicates_seen: "mset (drop_duplicates_seen S rs) \<subseteq># mset rs"
  by (induction S rs rule: drop_duplicates_seen.induct) auto

lemma set_drop_duplicates_seen: "set (drop_duplicates_seen S rs) \<subseteq> set rs"
  by (induction S rs rule: drop_duplicates_seen.induct) auto

lemmas drop_duplicates_facts [etl_simps] =
  distinct_drop_duplicates_seen keys_drop_duplicates_seen subseq_drop_duplicates_seen
  mset_drop_duplicates_seen set_drop_duplicates_seen

text \<open>The result of \<open>quality_checks\<close> when both selected columns exist.\<close>

lemma quality_checks_apply:
  assumes "''time'' \<in> set (df_columns df)" and "''relative_humidity_2m'' \<in> set (df_columns df)"
  shows "quality_checks df w =
     (Inr (df\<lparr>df_rows := drop_duplicates (filter row_ok (df_rows df))\<rparr>,
           df\<lparr>df_rows := filter (\<lambda>r. \<not> row_ok r) (df_rows df)\<rparr>),
      w\<lparr>w_log := w_log w @ [(INFO, QualityReport (length (drop_duplicates (filter row_ok (df_rows df))))
                                  (length (filter (\<lambda>r. \<not> row_ok r) (df_rows df)))
                                  (length (filter row_ok (df_rows df)) - length (drop_duplicates (filter row_ok (df_rows df)))))]\<rparr>)"
  using assms by (simp add: quality_checks_def Let_def etl_simps)

lemma quality_checks_Inr_E:
  assumes "quality_checks df w = (Inr (clean, rej), w')"
  obtains "''time'' \<in> set (df_columns df)" and "''relative_humidity_2m'' \<in> set (df_columns df)"
    and "df_rows clean = drop_duplicates (filter row_ok (df_rows df))"
    and "df_rows rej = filter (\<lambda>r. \<not> row_ok r) (df_rows df)"
    and "df_columns clean = df_columns df" and "df_columns rej = df_columns df"
  using assms by (auto simp: quality_checks_def Let_def etl_simps split: if_splits)

text \<open>The gate on the scenario: row 0 (humidity 150) is rejected, rows 1 and 2 have distinct
  times and are both accepted, nothing is removed by deduplication.\<close>

lemma quality_checks_scenario:
  "quality_checks scenario_frame initial_world =
     (Inr (scenario_frame\<lparr>df_rows := tl (df_rows scenario_frame)\<rparr>,
           scenario_frame\<lparr>df_rows := [hd (df_rows scenario_frame)]\<rparr>),
      initial_world\<lparr>w_log := [(INFO, QualityReport 2 1 0)]\<rparr>)"
  by (simp add: quality_checks_apply scenario_frame_def weather_columns_def row_ok_def
      drop_duplicates_def initial_world_def)

lemma drop_duplicates_filter_row_ok:
  "filter row_ok (drop_duplicates (filter row_ok rs)) = drop_duplicates (filter row_ok rs)"
  unfolding drop_duplicates_def using set_drop_duplicates_seen [of "{}" "filter row_ok rs"]
  by (auto intro: filter_True)

subsection \<open>Properties of the quality gate\<close>

text \<open>C2: every accepted row satisfies the validation rule, and no two accepted rows
  share a primary-key value.\<close>

theorem quality_checks_accepted_valid_unique:
  assumes "quality_checks df w = (Inr (clean, rej), w')"
  shows "(\<forall>r\<in>set (df_rows clean). row_ok r) \<and> distinct (map time (df_rows clean))"
proof -
  from assms have rows: "df_rows clean = drop_duplicates (filter row_ok (df_rows df))"
    by (rule quality_checks_Inr_E)
  have "set (df_rows clean) \<subseteq> set (filter row_ok (df_rows df))"
    unfolding rows drop_duplicates_def by (rule set_drop_duplicates_seen)
  then show ?thesis
    unfolding rows drop_duplicates_def by (auto simp: distinct_drop_duplicates_seen)
qed

theorem quality_checks_accepted_valid_unique_witness:
  "quality_checks scenario_frame initial_world =
     (Inr (scenario_frame\<lparr>df_rows := tl (df_rows scenario_frame)\<rparr>,
           scenario_frame\<lparr>df_rows := [hd (df_rows scenario_frame)]\<rparr>),
      initial_world\<lparr>w_log := [(INFO, QualityReport 2 1 0)]\<rparr>) \<and>
   list_all row_ok (tl (df_rows scenario_frame)) \<and>
   distinct (map time (tl (df_rows scenario_frame)))"
  using quality_checks_accepted_valid_unique [OF quality_checks_scenario] quality_checks_scenario
  by (simp add: list_all_iff)

text \<open>C3: the gate partitions its input: every row either is rejected (exactly the rows that
  fail the rule are) or has a surviving accepted row with the same key; no row is in both
  outputs, and the outputs together take no row more often than the input has it.\<close>

theorem quality_checks_partition:
  assumes "quality_checks df w = (Inr (clean, rej), w')"
  shows "mset (df_rows clean) + mset (df_rows rej) \<subseteq># mset (df_rows df) \<and>
         set (df_rows clean) \<inter> set (df_rows rej) = {} \<and>
         (\<forall>r\<in>set (df_rows df). (r \<in> set (df_rows rej) \<longleftrightarrow> \<not> row_ok r) \<and>
             (row_ok r \<longrightarrow> (\<exists>c\<in>set (df_rows clean). time c = time r)))"
proof -
  from assms have rows: "df_rows clean = drop_duplicates (filter row_ok (df_rows df))"
    and rej: "df_rows rej = filter (\<lambda>r. \<not> row_ok r) (df_rows df)"
    by (auto elim: quality_checks_Inr_E)
  have "mset (df_rows clean) \<subseteq># mset (filter row_ok (df_rows df))"
    unfolding rows drop_duplicates_def by (rule mset_drop_duplicates_seen)
  then have m: "mset (df_rows clean) + mset (df_rows rej) \<subseteq># mset (df_rows df)"
    unfolding rej using multiset_partition [of "mset (df_rows df)" row_ok]
    by (metis mset_filter subset_mset.add_right_mono)
  have keys: "time ` set (df_rows clean) = time ` set (filter row_ok (df_rows df))"
    unfolding rows drop_duplicates_def by (simp add: keys_drop_duplicates_seen)
  have ok: "\<forall>r\<in>set (df_rows clean). row_ok r"
    using set_drop_duplicates_seen [of "{}" "filter row_ok (df_rows df)"]
    unfolding rows drop_duplicates_def by auto
  have "\<forall>r\<in>set (df_rows df). row_ok r \<longrightarrow> (\<exists>c\<in>set (df_rows clean). time c = time r)"
  proof (intro ballI impI)
    fix r assume "r \<in> set (df_rows df)" and "row_ok r"
    then have "time r \<in> time ` set (df_rows clean)" unfolding keys by auto
    then show "\<exists>c\<in>set (df_rows clean). time c = time r" by auto
  qed
  with m ok show ?thesis unfolding rej by auto
qed

theorem quality_checks_partition_witness:
  "quality_checks scenario_frame initial_world =
     (Inr (scenario_frame\<lparr>df_rows := tl (df_rows scenario_frame)\<rparr>,
           scenario_frame\<lparr>df_rows := [hd (df_rows scenario_frame)]\<rparr>),
      initial_world\<lparr>w_log := [(INFO, QualityReport 2 1 0)]\<rparr>) \<and>
   list_all (\<lambda>r. (r \<in> set [hd (df_rows scenario_frame)] \<longleftrightarrow> \<not> row_ok r) \<and>
      (row_ok r \<longrightarrow> (\<exists>c\<in>set (tl (df_rows scenario_frame)). time c = time r)))
     (df_rows scenario_frame)"
  using quality_checks_partition [OF quality_checks_scenario] quality_checks_scenario
  by (simp add: list_all_iff)

text \<open>C6: the deduplication pandas performs (one pass, remembering the keys seen) keeps
  exactly the rows that no earlier row shares a key with, in their original order.\<close>

theorem drop_duplicates_first_occurrences: "drop_duplicates rs = first_occurrences rs"
  by (simp add: drop_duplicates_def first_occurrences_def drop_duplicates_seen_nth)

text \<open>C16: the rule \<^verbatim>\<open>quality_checks\<close> hard-codes (time non-null, humidity in [0, 100])
  is the schema-driven rule of the specification instantiated at
  \<^verbatim>\<open>WEATHER_HOURLY_SCHEMA\<close>; both bounds are inclusive.\<close>

theorem row_ok_refines_schema: "row_ok r \<longleftrightarrow> schema_row_valid WEATHER_HOURLY_SCHEMA r"
  by (simp add: row_ok_def schema_row_valid_def WEATHER_HOURLY_SCHEMA_def cell_num_def
      split: option.splits)

text \<open>C17: the gate keeps the original order: the accepted rows and the rejected rows are
  each a subsequence of the input.\<close>

theorem quality_checks_order:
  assumes "quality_checks df w = (Inr (clean, rej), w')"
  shows "subseq (df_rows clean) (df_rows df) \<and> subseq (df_rows rej) (df_rows df)"
proof -
  from assms have rows: "df_rows clean = drop_duplicates (filter row_ok (df_rows df))"
    and rej: "df_rows rej = filter (\<lambda>r. \<not> row_ok r) (df_rows df)"
    by (auto elim: quality_checks_Inr_E)
  have "subseq (drop_duplicates (filter row_ok (df_rows df))) (filter row_ok (df_rows df))"
    unfolding drop_duplicates_def by (rule subseq_drop_duplicates_seen)
  then have "subseq (df_rows clean) (df_rows df)"
    unfolding rows using subseq_filter_left subseq_order.order_trans by blast
  then show ?thesis unfolding rej by simp
qed

theorem quality_checks_order_witness:
  "quality_checks scenario_frame initial_world =
     (Inr (scenario_frame\<lparr>df_rows := tl (df_rows scenario_frame)\<rparr>,
           scenario_frame\<lparr>df_rows := [hd (df_rows scenario_frame)]\<rparr>),
      initial_world\<lparr>w_log := [(INFO, QualityReport 2 1 0)]\<rparr>) \<and>
   subseq (tl (df_rows scenario_frame)) (df_rows scenario_frame) \<and>
   subseq [hd (df_rows scenario_frame)] (df_rows scenario_frame)"
  using quality_checks_order [OF quality_checks_scenario] quality_checks_scenario
  by simp

text \<open>C18: the gate logs exactly one line, whose counts are the accepted and rejected sizes
  and a removal count that accounts for every remaining input row.\<close>

theorem quality_checks_log_counts:
  assumes "quality_checks df w = (Inr (clean, rej), w')"
  shows "\<exists>d. w' = w\<lparr>w_log := w_log w @ [(INFO, QualityReport (length (df_rows clean)) (length (df_rows rej)) d)]\<rparr>
             \<and> length (df_rows clean) + length (df_rows rej) + d = length (df_rows df)"
proof -
  from assms have cols: "''time'' \<in> set (df_columns df)" "''relative_humidity_2m'' \<in> set (df_columns df)"
    by (auto elim: quality_checks_Inr_E)
  let ?ok = "filter row_ok (df_rows df)"
  have le: "length (drop_duplicates ?ok) \<le> length ?ok"
    unfolding drop_duplicates_def using subseq_drop_duplicates_seen list_emb_length by blast
  have sum: "length ?ok + length (filter (\<lambda>r. \<not> row_ok r) (df_rows df)) = length (df_rows df)"
    by (rule sum_length_filter_compl)
  from assms quality_checks_apply [OF cols, of w] le sum show ?thesis
    by auto
qed

theorem quality_checks_log_counts_witness:
  "quality_checks scenario_frame initial_world =
     (Inr (scenario_frame\<lparr>df_rows := tl (df_rows scenario_frame)\<rparr>,
           scenario_frame\<lparr>df_rows := [hd (df_rows scenario_frame)]\<rparr>),
      initial_world\<lparr>w_log := [(INFO, QualityReport 2 1 0)]\<rparr>) \<and>
   (\<exists>d. initial_world\<lparr>w_log := [(INFO, QualityReport 2 1 0)]\<rparr> =
          initial_world\<lparr>w_log := [(INFO, QualityReport 2 1 d)]\<rparr> \<and> 2 + 1 + d = (3::nat))"
  using quality_checks_log_counts [OF quality_checks_scenario] quality_checks_scenario
  by (simp add: scenario_frame_def initial_world_def)

text \<open>C19: the gate is idempotent on its own output: checking the accepted frame again
  accepts all of it, rejects nothing and removes nothing.\<close>

theorem quality_checks_idempotent:
  assumes "quality_checks df w = (Inr (clean, rej), w')"
  shows "\<exists>w''. quality_checks clean w' = (Inr (clean, clean\<lparr>df_rows := []\<rparr>), w'')"
proof -
  from assms have cols: "''time'' \<in> set (df_columns clean)" "''relative_humidity_2m'' \<in> set (df_columns clean)"
    and rows: "df_rows clean = drop_duplicates (filter row_ok (df_rows df))"
    by (auto elim: quality_checks_Inr_E)
  have ok: "filter row_ok (df_rows clean) = df_rows clean"
    unfolding rows by (rule drop_duplicates_filter_row_ok)
  have none: "filter (\<lambda>r. \<not> row_ok r) (df_rows clean) = []"
    using ok by (metis filter_False filter_id_conv)
  have "drop_duplicates (df_rows clean) = df_rows clean"
    unfolding rows drop_duplicates_def
    by (rule drop_duplicates_seen_id) (simp_all add: distinct_drop_duplicates_seen)
  with ok none show ?thesis
    by (simp add: quality_checks_apply [OF cols])
qed

theorem quality_checks_idempotent_witness:
  "quality_checks scenario_frame initial_world =
     (Inr (scenario_frame\<lparr>df_rows := tl (df_rows scenario_frame)\<rparr>,
           scenario_frame\<lparr>df_rows := [hd (df_rows scenario_frame)]\<rparr>),
      initial_world\<lparr>w_log := [(INFO, QualityReport 2 1 0)]\<rparr>) \<and>
   (\<exists>w''. quality_checks (scenario_frame\<lparr>df_rows := tl (df_rows scenario_frame)\<rparr>)
            (initial_world\<lparr>w_log := [(INFO, QualityReport 2 1 0)]\<rparr>) =
          (Inr (scenario_frame\<lparr>df_rows := tl (df_rows scenario_frame)\<rparr>,
                scenario_frame\<lparr>df_rows := tl (df_rows scenario_frame)\<rparr>\<lparr>df_rows := []\<rparr>), w''))"
  using quality_checks_idempotent [OF quality_checks_scenario] quality_checks_scenario
  by simp

text \<open>C20: a frame without one of the two selected columns makes the gate raise
  \<^verbatim>\<open>KeyError\<close> naming a missing column, before it logs anything.\<close>

theorem quality_checks_missing_column:
  assumes "''time'' \<notin> set (df_columns df) \<or> ''relative_humidity_2m'' \<notin> set (df_columns df)"
  shows "\<exists>c. c \<notin> set (df_columns df) \<and> quality_checks df w = (Inl (KeyError [c]), w)"
  using assms by (auto simp: quality_checks_def etl_simps)

theorem quality_checks_missing_column_witness:
  "(\<exists>c. c \<notin> set [''temperature_2m''] \<and>
      quality_checks \<lparr>df_columns = [''temperature_2m''], df_rows = []\<rparr> initial_world =
        (Inl (KeyError [c]), initial_world))"
  using quality_checks_missing_column [of "\<lparr>df_columns = [''temperature_2m''], df_rows = []\<rparr>" initial_world]
  by simp

end
