(* ===== verification/Extract.thy ===== *)
theory Extract
  imports World
begin

text \<open>
  \<^verbatim>\<open>extract_weather_api\<close> (\<^verbatim>\<open>src/functions.py\<close>, lines 52--72): up to
  \<^verbatim>\<open>retries\<close> attempts, numbered from 1. An attempt logs the request, sends it, and
  returns the decoded body; any exception is caught, logged as a warning, re-raised after
  the attempt numbered \<^verbatim>\<open>retries\<close>, and otherwise followed by a sleep of twice the
  attempt number before the next attempt. The loop is structural recursion over the list
  \<^verbatim>\<open>range(1, retries + 1)\<close>, so it terminates without fuel. When that range is empty
  (\<^verbatim>\<open>retries <= 0\<close>) the function falls off its end and returns \<^verbatim>\<open>None\<close>.
\<close>

subsection \<open>One request\<close>

text \<open>\<^verbatim>\<open>requests.get\<close>, \<^verbatim>\<open>r.raise_for_status()\<close> (raises for status 400 to 599 only)
  and \<^verbatim>\<open>r.json()\<close> on one network outcome.\<close>

fun response_result :: "fetch_outcome \<Rightarrow> error + jval" where
  "response_result (NetFailure e) = Inl (RequestException e)"
| "response_result (Response st body) =
     (if 400 \<le> st \<and> st < 600 then Inl (RequestException (HTTPError st))
      else case body of None \<Rightarrow> Inl (RequestException JSONDecodeError) | Some v \<Rightarrow> Inr v)"

text \<open>The request consumes the next outcome of the network; the URL, the parameters and the
  timeout go out with it and the outcome the world gives back already accounts for them
  (a timeout is the outcome \<open>NetFailure Timeout\<close>).\<close>

definition http_get :: "string \<Rightarrow> jval \<Rightarrow> nat \<Rightarrow> jval eff" where
  "http_get url params timeout w =
     (response_result (w_net w (w_requests w)), w\<lparr>w_requests := Suc (w_requests w)\<rparr>)"

subsection \<open>The retry loop\<close>

fun extract_attempts :: "string \<Rightarrow> jval \<Rightarrow> nat \<Rightarrow> int \<Rightarrow> nat list \<Rightarrow> jval eff" where
  "extract_attempts base_url params timeout retries [] = eret JNull"
| "extract_attempts base_url params timeout retries (attempt # rest) =
     ecatch
       (ebind (log_msg INFO (ExtractAttempt base_url attempt params))
          (\<lambda>_. http_get base_url params timeout))
       (\<lambda>e. ebind (log_msg WARNING (ExtractFailed attempt e))
               (\<lambda>_. if int attempt = retries then eraise e
                    else ebind (sleep (2 * attempt))
                           (\<lambda>_. extract_attempts base_url params timeout retries rest)))"

definition extract_weather_api :: "string \<Rightarrow> jval \<Rightarrow> nat \<Rightarrow> int \<Rightarrow> jval eff" where
  "extract_weather_api base_url params timeout retries =
     extract_attempts base_url params timeout retries [1..<nat retries + 1]"

text \<open>The log lines and sleeps of \<open>m\<close> failed attempts, the first numbered \<open>j\<close>, whose
  requests are the world's requests from number \<open>r\<close> on.\<close>

definition failed_attempts_log ::
  "string \<Rightarrow> jval \<Rightarrow> (nat \<Rightarrow> fetch_outcome) \<Rightarrow> nat \<Rightarrow> nat \<Rightarrow> nat \<Rightarrow> (level \<times> log_event) list" where
  "failed_attempts_log base_url params net r j m =
     concat (map (\<lambda>i. [(INFO, ExtractAttempt base_url (j + i) params),
                       (WARNING, ExtractFailed (j + i) (projl (response_result (net (r + i)))))]) [0..<m])"

definition backoff_sleeps :: "nat \<Rightarrow> nat \<Rightarrow> nat list" where
  "backoff_sleeps j m = map (\<lambda>i. 2 * (j + i)) [0..<m]"

definition is_failure :: "fetch_outcome \<Rightarrow> bool" where
  "is_failure out \<longleftrightarrow> isl (response_result out)"

text \<open>Two networks of the specification's retry scenarios: one that times out twice and
  then answers, and one that answers 503 to every request.\<close>

definition flaky_network :: "nat \<Rightarrow> fetch_outcome" where
  "flaky_network k = (if k < 2 then NetFailure Timeout else Response 200 (Some (JObj [])))"

definition down_network :: "nat \<Rightarrow> fetch_outcome" where
  "down_network k = Response 503 None"

subsection \<open>The loop, attempt by attempt\<close>

lemma failed_attempts_log_0 [simp]: "failed_attempts_log b p net r j 0 = []"
  by (simp add: failed_attempts_log_def)

lemma failed_attempts_log_Suc:
  "failed_attempts_log b p net r j (Suc m) =
     [(INFO, ExtractAttempt b j p), (WARNING, ExtractFailed j (projl (response_result (net r))))] @
     failed_attempts_log b p net (Suc r) (Suc j) m"
  by (simp del: upt_Suc add: failed_attempts_log_def upt_Suc_shift comp_def)

lemma backoff_sleeps_0 [simp]: "backoff_sleeps j 0 = []"
  by (simp add: backoff_sleeps_def)

lemma backoff_sleeps_Suc: "backoff_sleeps j (Suc m) = 2 * j # backoff_sleeps (Suc j) m"
  by (simp del: upt_Suc add: backoff_sleeps_def upt_Suc_shift comp_def)

lemma extract_attempts_Cons_apply:
  "extract_attempts b p t R (a # rest) w =
     (case response_result (w_net w (w_requests w)) of
        Inr v \<Rightarrow> (Inr v, w\<lparr>w_log := w_log w @ [(INFO, ExtractAttempt b a p)], w_requests := Suc (w_requests w)\<rparr>)
      | Inl e \<Rightarrow>
          (let w1 = w\<lparr>w_requests := Suc (w_requests w),
                     w_log := w_log w @ [(INFO, ExtractAttempt b a p), (WARNING, ExtractFailed a e)]\<rparr>
           in if int a = R then (Inl e, w1)
              else extract_attempts b p t R rest (w1\<lparr>w_sleeps := w_sleeps w1 @ [2 * a]\<rparr>)))"
  by (simp add: etl_simps http_get_def split: sum.splits)

declare extract_attempts.simps(2) [simp del]

lemma extract_attempts_success:
  assumes "\<forall>i<m. is_failure (w_net w (w_requests w + i))"
    and "response_result (w_net w (w_requests w + m)) = Inr v"
    and "j + m \<le> n" and "int n = R"
  shows "extract_attempts b p t R [j..<Suc n] w =
     (Inr v, w\<lparr>w_log := w_log w @ failed_attempts_log b p (w_net w) (w_requests w) j m @
                          [(INFO, ExtractAttempt b (j + m) p)],
               w_sleeps := w_sleeps w @ backoff_sleeps j m,
               w_requests := w_requests w + Suc m\<rparr>)"
  using assms
proof (induction m arbitrary: j w)
  case 0
  then have "[j..<Suc n] = j # [Suc j..<Suc n]" by (simp add: upt_conv_Cons)
  with "0.prems" show ?case by (simp del: upt_Suc add: extract_attempts_Cons_apply)
next
  case (Suc m)
  from Suc.prems(1) obtain e where e: "response_result (w_net w (w_requests w)) = Inl e"
    by (auto simp: is_failure_def isl_def)
  from Suc.prems(3,4) have ne: "int j \<noteq> R" and split: "[j..<Suc n] = j # [Suc j..<Suc n]"
    by (auto simp: upt_conv_Cons)
  have p1: "\<forall>i<m. is_failure (w_net w (Suc (w_requests w) + i))"
    using Suc.prems(1) by auto
  have p2: "response_result (w_net w (Suc (w_requests w) + m)) = Inr v"
    using Suc.prems(2) by simp
  let ?w1 = "w\<lparr>w_requests := Suc (w_requests w),
               w_log := w_log w @ [(INFO, ExtractAttempt b j p), (WARNING, ExtractFailed j e)],
               w_sleeps := w_sleeps w @ [2 * j]\<rparr>"
  have IH: "extract_attempts b p t R [Suc j..<Suc n] ?w1 =
     (Inr v, ?w1\<lparr>w_log := w_log ?w1 @ failed_attempts_log b p (w_net w) (Suc (w_requests w)) (Suc j) m @
                          [(INFO, ExtractAttempt b (Suc j + m) p)],
               w_sleeps := w_sleeps ?w1 @ backoff_sleeps (Suc j) m,
               w_requests := Suc (w_requests w) + Suc m\<rparr>)"
    using Suc.IH [where j = "Suc j" and w = ?w1] p1 p2 Suc.prems(3,4) by simp
  show ?case
    using IH e ne
    by (simp del: upt_Suc add: split extract_attempts_Cons_apply failed_attempts_log_Suc backoff_sleeps_Suc)
qed


lemma extract_attempts_exhausted:
  assumes "\<forall>i\<le>d. is_failure (w_net w (w_requests w + i))" and "j + d = n" and "int n = R"
  shows "extract_attempts b p t R [j..<Suc n] w =
     (Inl (projl (response_result (w_net w (w_requests w + d)))),
      w\<lparr>w_log := w_log w @ failed_attempts_log b p (w_net w) (w_requests w) j (Suc d),
        w_sleeps := w_sleeps w @ backoff_sleeps j d,
        w_requests := w_requests w + Suc d\<rparr>)"
  using assms
proof (induction d arbitrary: j w)
  case 0
  from "0.prems"(1) obtain e where e: "response_result (w_net w (w_requests w)) = Inl e"
    by (auto simp: is_failure_def isl_def)
  from "0.prems"(2,3) have "[j..<Suc n] = [j]" and "int j = R" by auto
  with e show ?case
    by (simp del: upt_Suc add: extract_attempts_Cons_apply failed_attempts_log_Suc)
next
  case (Suc d)
  from Suc.prems(1) obtain e where e: "response_result (w_net w (w_requests w)) = Inl e"
    by (auto simp: is_failure_def isl_def)
  from Suc.prems(2,3) have ne: "int j \<noteq> R" and split: "[j..<Suc n] = j # [Suc j..<Suc n]"
    by (auto simp: upt_conv_Cons)
  have p1: "\<forall>i\<le>d. is_failure (w_net w (Suc (w_requests w) + i))"
    using Suc.prems(1) by auto
  let ?w1 = "w\<lparr>w_requests := Suc (w_requests w),
               w_log := w_log w @ [(INFO, ExtractAttempt b j p), (WARNING, ExtractFailed j e)],
               w_sleeps := w_sleeps w @ [2 * j]\<rparr>"
  have IH: "extract_attempts b p t R [Suc j..<Suc n] ?w1 =
     (Inl (projl (response_result (w_net w (Suc (w_requests w) + d)))),
      ?w1\<lparr>w_log := w_log ?w1 @ failed_attempts_log b p (w_net w) (Suc (w_requests w)) (Suc j) (Suc d),
        w_sleeps := w_sleeps ?w1 @ backoff_sleeps (Suc j) d,
        w_requests := Suc (w_requests w) + Suc d\<rparr>)"
    using Suc.IH [where j = "Suc j" and w = ?w1] p1 Suc.prems(2,3) by simp
  show ?case
    using IH e ne
    by (simp del: upt_Suc add: split extract_attempts_Cons_apply failed_attempts_log_Suc backoff_sleeps_Suc)
qed

lemma extract_weather_api_first_ok:
  "response_result (w_net w (w_requests w)) = Inr v \<Longrightarrow> 0 < R \<Longrightarrow>
   extract_weather_api b p t R w =
     (Inr v, w\<lparr>w_log := w_log w @ [(INFO, ExtractAttempt b 1 p)], w_requests := Suc (w_requests w)\<rparr>)"
  unfolding extract_weather_api_def
  by (subst upt_conv_Cons) (simp_all del: upt_Suc add: extract_attempts_Cons_apply)

subsection \<open>Properties of the extractor\<close>

text \<open>C7: when the first \<open>k - 1\<close> requests fail and the \<open>k\<close>-th succeeds, with
  \<open>k \<le> retries\<close>, the extractor returns the \<open>k\<close>-th body after \<open>k\<close> requests, one
  request line per attempt, one warning per failed attempt, and sleeps of 2, 4, ...,
  \<open>2 (k - 1)\<close>.\<close>

theorem extract_succeeds_after_failures:
  assumes "0 < k" and "int k \<le> retries"
    and "\<forall>i<k - 1. is_failure (w_net w (w_requests w + i))"
    and "response_result (w_net w (w_requests w + (k - 1))) = Inr v"
  shows "extract_weather_api base_url params timeout retries w =
     (Inr v, w\<lparr>w_log := w_log w @ failed_attempts_log base_url params (w_net w) (w_requests w) 1 (k - 1) @
                          [(INFO, ExtractAttempt base_url k params)],
               w_sleeps := w_sleeps w @ backoff_sleeps 1 (k - 1),
               w_requests := w_requests w + k\<rparr>)"
proof -
  have "[1..<nat retries + 1] = [1..<Suc (nat retries)]" by simp
  moreover have "extract_attempts base_url params timeout retries [1..<Suc (nat retries)] w =
     (Inr v, w\<lparr>w_log := w_log w @ failed_attempts_log base_url params (w_net w) (w_requests w) 1 (k - 1) @
                          [(INFO, ExtractAttempt base_url (1 + (k - 1)) params)],
               w_sleeps := w_sleeps w @ backoff_sleeps 1 (k - 1),
               w_requests := w_requests w + Suc (k - 1)\<rparr>)"
    using assms by (intro extract_attempts_success) auto
  ultimately show ?thesis using assms(1) by (simp add: extract_weather_api_def)
qed

theorem extract_succeeds_after_failures_witness:
  "extract_weather_api ''https://api.open-meteo.com/v1/forecast'' JNull 30 3
     (initial_world\<lparr>w_net := flaky_network\<rparr>) =
   (Inr (JObj []), initial_world\<lparr>w_net := flaky_network,
      w_log := [(INFO, ExtractAttempt ''https://api.open-meteo.com/v1/forecast'' 1 JNull),
                (WARNING, ExtractFailed 1 (RequestException Timeout)),
                (INFO, ExtractAttempt ''https://api.open-meteo.com/v1/forecast'' 2 JNull),
                (WARNING, ExtractFailed 2 (RequestException Timeout)),
                (INFO, ExtractAttempt ''https://api.open-meteo.com/v1/forecast'' 3 JNull)],
      w_sleeps := [2, 4], w_requests := 3\<rparr>)"
proof -
  have net: "\<forall>i<3 - 1. is_failure (w_net (initial_world\<lparr>w_net := flaky_network\<rparr>)
               (w_requests (initial_world\<lparr>w_net := flaky_network\<rparr>) + i))"
    by (simp add: initial_world_def flaky_network_def is_failure_def less_Suc_eq numeral_2_eq_2)
  have ok: "response_result (w_net (initial_world\<lparr>w_net := flaky_network\<rparr>)
              (w_requests (initial_world\<lparr>w_net := flaky_network\<rparr>) + (3 - 1))) = Inr (JObj [])"
    by (simp add: initial_world_def flaky_network_def)
  show ?thesis
    using extract_succeeds_after_failures [where k = 3 and retries = 3 and v = "JObj []"
        and w = "initial_world\<lparr>w_net := flaky_network\<rparr>"
        and base_url = "''https://api.open-meteo.com/v1/forecast''" and params = JNull and timeout = 30] net ok
    by (simp add: initial_world_def flaky_network_def failed_attempts_log_def backoff_sleeps_def
        numeral_2_eq_2 numeral_3_eq_3)
qed

text \<open>C8: when every one of the \<open>retries\<close> requests fails, the extractor raises the
  last attempt's exception, after one warning per attempt and the sleeps 2, 4, ...,
  \<open>2 (retries - 1)\<close> (none after the last attempt).\<close>

theorem extract_exhausts_retries:
  assumes "0 < retries" and "\<forall>i<nat retries. is_failure (w_net w (w_requests w + i))"
  shows "extract_weather_api base_url params timeout retries w =
     (Inl (projl (response_result (w_net w (w_requests w + (nat retries - 1))))),
      w\<lparr>w_log := w_log w @ failed_attempts_log base_url params (w_net w) (w_requests w) 1 (nat retries),
        w_sleeps := w_sleeps w @ backoff_sleeps 1 (nat retries - 1),
        w_requests := w_requests w + nat retries\<rparr>)"
proof -
  have "extract_attempts base_url params timeout retries [1..<Suc (nat retries)] w =
     (Inl (projl (response_result (w_net w (w_requests w + (nat retries - 1))))),
      w\<lparr>w_log := w_log w @ failed_attempts_log base_url params (w_net w) (w_requests w) 1 (Suc (nat retries - 1)),
        w_sleeps := w_sleeps w @ backoff_sleeps 1 (nat retries - 1),
        w_requests := w_requests w + Suc (nat retries - 1)\<rparr>)"
    using assms by (intro extract_attempts_exhausted) auto
  then show ?thesis using assms(1) by (simp add: extract_weather_api_def)
qed

theorem extract_exhausts_retries_witness:
  "extract_weather_api ''https://api.open-meteo.com/v1/forecast'' JNull 30 3
     (initial_world\<lparr>w_net := down_network\<rparr>) =
   (Inl (RequestException (HTTPError 503)), initial_world\<lparr>w_net := down_network,
      w_log := [(INFO, ExtractAttempt ''https://api.open-meteo.com/v1/forecast'' 1 JNull),
                (WARNING, ExtractFailed 1 (RequestException (HTTPError 503))),
                (INFO, ExtractAttempt ''https://api.open-meteo.com/v1/forecast'' 2 JNull),
                (WARNING, ExtractFailed 2 (RequestException (HTTPError 503))),
                (INFO, ExtractAttempt ''https://api.open-meteo.com/v1/forecast'' 3 JNull),
                (WARNING, ExtractFailed 3 (RequestException (HTTPError 503)))],
      w_sleeps := [2, 4], w_requests := 3\<rparr>)"
proof -
  have net: "\<forall>i<nat 3. is_failure (w_net (initial_world\<lparr>w_net := down_network\<rparr>)
               (w_requests (initial_world\<lparr>w_net := down_network\<rparr>) + i))"
    by (simp add: down_network_def is_failure_def)
  show ?thesis
    using extract_exhausts_retries [where retries = 3 and w = "initial_world\<lparr>w_net := down_network\<rparr>"
        and base_url = "''https://api.open-meteo.com/v1/forecast''" and params = JNull and timeout = 30] net
    by (simp add: initial_world_def down_network_def failed_attempts_log_def backoff_sleeps_def
        numeral_2_eq_2 numeral_3_eq_3)
qed

text \<open>C22: with \<open>retries \<le> 0\<close> the loop runs no attempt and the extractor returns
  \<^verbatim>\<open>None\<close> without a request, a log line or an exception.\<close>

theorem extract_no_attempts:
  assumes "retries \<le> 0"
  shows "extract_weather_api base_url params timeout retries w = (Inr JNull, w)"
  using assms by (simp add: extract_weather_api_def etl_simps)

theorem extract_no_attempts_witness:
  "extract_weather_api ''https://api.open-meteo.com/v1/forecast'' JNull 30 0 initial_world =
   (Inr JNull, initial_world)"
  using extract_no_attempts [where retries = 0] by simp

text \<open>The linear backoff of a run that gives up after \<open>n\<close> attempts sleeps
  \<open>n (n - 1)\<close> time units in all.\<close>

lemma extract_total_backoff: "sum_list (backoff_sleeps 1 (n - 1)) = n * (n - 1)"
proof (induction n)
  case 0
  then show ?case by (simp add: backoff_sleeps_def)
next
  case (Suc n)
  have "backoff_sleeps 1 n = backoff_sleeps 1 (n - 1) @ (if n = 0 then [] else [2 * n])"
    by (cases n) (simp_all add: backoff_sleeps_def)
  with Suc.IH show ?case by (cases n) (simp_all add: algebra_simps)
qed

text \<open>C21: with \<open>retries > 0\<close> the extractor always returns, raising or not, after
  between 1 and \<open>retries\<close> requests, and has slept 2, 4, ... between them and never after
  the last one.\<close>

theorem extract_requests_bounded:
  assumes "0 < R" and "extract_weather_api b p t R w = (r, w')"
  shows "\<exists>k. 1 \<le> k \<and> k \<le> nat R \<and> w_requests w' = w_requests w + k \<and>
             w_sleeps w' = w_sleeps w @ backoff_sleeps 1 (k - 1)"
proof (cases "\<exists>m<nat R. \<not> is_failure (w_net w (w_requests w + m))")
  case True
  then obtain m where m: "m < nat R" "\<not> is_failure (w_net w (w_requests w + m))"
    and before: "\<forall>i<m. is_failure (w_net w (w_requests w + i))"
    using exists_least_iff [where P = "\<lambda>m. m < nat R \<and> \<not> is_failure (w_net w (w_requests w + m))"]
    by (metis order.strict_trans)
  then obtain v where "response_result (w_net w (w_requests w + m)) = Inr v"
    by (cases "response_result (w_net w (w_requests w + m))") (auto simp: is_failure_def)
  then have "extract_attempts b p t R [1..<Suc (nat R)] w =
     (Inr v, w\<lparr>w_log := w_log w @ failed_attempts_log b p (w_net w) (w_requests w) 1 m @
                          [(INFO, ExtractAttempt b (1 + m) p)],
               w_sleeps := w_sleeps w @ backoff_sleeps 1 m,
               w_requests := w_requests w + Suc m\<rparr>)"
    using before m(1) assms(1) by (intro extract_attempts_success) auto
  then show ?thesis using assms m(1) by (auto simp: extract_weather_api_def)
next
  case False
  then have "\<forall>i\<le>nat R - 1. is_failure (w_net w (w_requests w + i))"
    using assms(1) by auto
  then have "extract_attempts b p t R [1..<Suc (nat R)] w =
     (Inl (projl (response_result (w_net w (w_requests w + (nat R - 1))))),
      w\<lparr>w_log := w_log w @ failed_attempts_log b p (w_net w) (w_requests w) 1 (Suc (nat R - 1)),
        w_sleeps := w_sleeps w @ backoff_sleeps 1 (nat R - 1),
        w_requests := w_requests w + Suc (nat R - 1)\<rparr>)"
    using assms(1) by (intro extract_attempts_exhausted) auto
  then show ?thesis using assms by (auto simp: extract_weather_api_def)
qed

theorem extract_requests_bounded_witness:
  "\<exists>k. 1 \<le> k \<and> k \<le> nat 3 \<and>
     w_requests (snd (extract_weather_api ''u'' JNull 30 3 (initial_world\<lparr>w_net := flaky_network\<rparr>))) =
       w_requests (initial_world\<lparr>w_net := flaky_network\<rparr>) + k \<and>
     w_sleeps (snd (extract_weather_api ''u'' JNull 30 3 (initial_world\<lparr>w_net := flaky_network\<rparr>))) =
       w_sleeps (initial_world\<lparr>w_net := flaky_network\<rparr>) @ backoff_sleeps 1 (k - 1)"
  by (rule extract_requests_bounded [where r = "fst (extract_weather_api ''u'' JNull 30 3 (initial_world\<lparr>w_net := flaky_network\<rparr>))"])
    simp_all

end
