(* ===== verification/Py_Float.thy ===== *)
theory Py_Float
  imports Etl_Prelude
begin

text \<open>
  Python's \<^verbatim>\<open>float(s)\<close> on a string, as \<^verbatim>\<open>main\<close> applies it to \<^verbatim>\<open>LAT\<close> and \<^verbatim>\<open>LON\<close>
  (\<^verbatim>\<open>src/etl.py\<close>, lines 21--22), modelled from the Python documentation: surrounding
  whitespace is stripped; then an optional sign and either \<^verbatim>\<open>inf\<close>, \<^verbatim>\<open>infinity\<close> or
  \<^verbatim>\<open>nan\<close> (any case), or a decimal literal: digits with single underscores between them,
  an optional fraction, an optional exponent. Anything else raises
  \<^verbatim>\<open>ValueError("could not convert string to float: " + repr(s))\<close>. The value is the exact
  decimal number (the rounding to a double is not modelled); infinities and NaN have no
  real value and are outside the model (\<open>Unmodelled\<close>). Characters are code points below
  256.
\<close>

definition py_isspace :: "char \<Rightarrow> bool" where
  "py_isspace c \<longleftrightarrow> of_char c \<in> {9, 10, 11, 12, 13, 28, 29, 30, 31, 32, 133, 160 :: nat}"

definition strip_by :: "(char \<Rightarrow> bool) \<Rightarrow> string \<Rightarrow> string" where
  "strip_by sp s = rev (dropWhile sp (rev (dropWhile sp s)))"

definition py_strip :: "string \<Rightarrow> string" where
  "py_strip = strip_by py_isspace"

text \<open>An optional leading sign, as a factor and the rest of the string.\<close>

definition split_sign :: "string \<Rightarrow> real \<times> string" where
  "split_sign t = (case t of c # cs \<Rightarrow> if c = CHR ''-'' then (-1, cs) else if c = CHR ''+'' then (1, cs) else (1, t)
                   | [] \<Rightarrow> (1, t))"

definition ascii_lower :: "char \<Rightarrow> char" where
  "ascii_lower c = (let n = of_char c :: nat in if 65 \<le> n \<and> n \<le> 90 then char_of (n + 32) else c)"

text \<open>A digit part of a literal: digits, with single underscores between two digits.\<close>

definition is_digit :: "char \<Rightarrow> bool" where
  "is_digit c \<longleftrightarrow> digit_val c \<noteq> None"

definition digitpart_ok :: "string \<Rightarrow> bool" where
  "digitpart_ok s \<longleftrightarrow> s \<noteq> [] \<and> is_digit (hd s) \<and> is_digit (last s) \<and>
     list_all (\<lambda>c. is_digit c \<or> c = CHR ''_'') s \<and>
     list_all (\<lambda>(a, b). \<not> (a = CHR ''_'' \<and> b = CHR ''_'')) (zip s (tl s))"

definition digits_value :: "string \<Rightarrow> nat" where
  "digits_value s = (case nat_of_digits (filter (\<lambda>c. c \<noteq> CHR ''_'') s) of Some n \<Rightarrow> n | None \<Rightarrow> 0)"

definition digits_only :: "string \<Rightarrow> bool" where
  "digits_only s \<longleftrightarrow> s \<noteq> [] \<and> list_all is_digit s"

text \<open>An unsigned decimal literal \<open>ip[.fp][(e|E)[sign]ed]\<close> with \<open>ip\<close> or \<open>fp\<close> present, whose
  digit parts are those accepted by \<open>dp\<close>: \<open>digitpart_ok\<close> for Python's \<^verbatim>\<open>float\<close>,
  \<open>digits_only\<close> for the C parser pandas uses.\<close>

definition parse_float_literal :: "(string \<Rightarrow> bool) \<Rightarrow> string \<Rightarrow> real option" where
  "parse_float_literal dp b =
     (let m = takeWhile (\<lambda>c. c \<noteq> CHR ''e'' \<and> c \<noteq> CHR ''E'') b;
          has_e = (m \<noteq> b);
          ex = drop 1 (dropWhile (\<lambda>c. c \<noteq> CHR ''e'' \<and> c \<noteq> CHR ''E'') b);
          ip = takeWhile (\<lambda>c. c \<noteq> CHR ''.'') m;
          fp = drop 1 (dropWhile (\<lambda>c. c \<noteq> CHR ''.'') m);
          (esg, ed) = (case ex of c # cs \<Rightarrow> if c = CHR ''-'' then (-1 :: int, cs)
                                         else if c = CHR ''+'' then (1, cs) else (1, ex)
                      | [] \<Rightarrow> (1, ex))
      in if (ip = [] \<and> fp = []) \<or> (ip \<noteq> [] \<and> \<not> dp ip) \<or> (fp \<noteq> [] \<and> \<not> dp fp)
            \<or> (has_e \<and> \<not> dp ed)
         then None
         else
           (let x = real (digits_value ip) +
                    real (digits_value fp) / 10 ^ length (filter (\<lambda>c. c \<noteq> CHR ''_'') fp);
                e = (if has_e then esg * int (digits_value ed) else 0)
            in Some (if 0 \<le> e then x * 10 ^ nat e else x / 10 ^ nat (- e))))"

text \<open>\<^verbatim>\<open>repr\<close> of a string: single quotes unless the string holds a single quote and no
  double quote; backslash, the quote, tab, newline and return escaped; other
  non-printable characters as \<^verbatim>\<open>\xhh\<close>.\<close>

definition hex_digit :: "nat \<Rightarrow> char" where
  "hex_digit d = (if d < 10 then char_of (48 + d) else char_of (87 + d))"

definition repr_char :: "char \<Rightarrow> char \<Rightarrow> string" where
  "repr_char q c =
     (let n = of_char c :: nat in
      if c = CHR 0x5C then [CHR 0x5C, CHR 0x5C]
      else if c = q then [CHR 0x5C, q]
      else if n = 9 then [CHR 0x5C, CHR ''t'']
      else if n = 10 then [CHR 0x5C, CHR ''n'']
      else if n = 13 then [CHR 0x5C, CHR ''r'']
      else if n < 32 \<or> (127 \<le> n \<and> n \<le> 160) \<or> n = 173
      then [CHR 0x5C, CHR ''x'', hex_digit (n div 16), hex_digit (n mod 16)]
      else [c])"

definition py_repr :: "string \<Rightarrow> string" where
  "py_repr s =
     (let q = (if CHR 0x27 \<in> set s \<and> CHR 0x22 \<notin> set s then CHR 0x22 else CHR 0x27)
      in q # concat (map (repr_char q) s) @ [q])"

definition py_float :: "string \<Rightarrow> error + real" where
  "py_float s =
     (let (sg, body) = split_sign (py_strip s)
      in if map ascii_lower body \<in> {''inf'', ''infinity'', ''nan''}
         then Inl (Unmodelled ''float() of inf or nan'')
         else case parse_float_literal digitpart_ok body of
                Some r \<Rightarrow> Inr (sg * r)
              | None \<Rightarrow> Inl (ValueError (''could not convert string to float: '' @ py_repr s)))"

lemmas py_float_simps = py_float_def py_strip_def strip_by_def py_isspace_def split_sign_def ascii_lower_def
  parse_float_literal_def digits_only_def
  digitpart_ok_def is_digit_def digits_value_def nat_of_digits_def digit_val_def char_of_def bit_0

lemma py_float_examples:
  "py_float ''3.1390'' = Inr (31390 / 10000)" "py_float ''101.6869'' = Inr (1016869 / 10000)"
  "py_float '' 1e5'' = Inr 100000" "py_float ''-2_5.5E-1'' = Inr (- 255 / 100)"
  "py_float ''north'' = Inl (ValueError (''could not convert string to float: '' @ py_repr ''north''))"
  "py_float ''1__0'' = Inl (ValueError (''could not convert string to float: '' @ py_repr ''1__0''))"
  "py_float ''-Infinity'' = Inl (Unmodelled ''float() of inf or nan'')"
  by (simp_all add: py_float_simps)

lemma py_repr_example: "py_repr ''north'' = [CHR 0x27, CHR ''n'', CHR ''o'', CHR ''r'', CHR ''t'', CHR ''h'', CHR 0x27]"
  by (simp add: py_repr_def repr_char_def Let_def)

end
