(* ===== verification/Transform.thy ===== *)
theory Transform
  imports World Py_Float
begin

text \<open>
  \<^verbatim>\<open>transform_weather_hourly\<close> (\<^verbatim>\<open>src/functions.py\<close>, lines 76--93): three
  \<^verbatim>\<open>dict.get\<close> calls with defaults, the \<^verbatim>\<open>pd.DataFrame\<close> constructor over a dict of
  three columns, the cell coercions \<^verbatim>\<open>pd.to_datetime(..., errors="coerce")\<close> and
  \<^verbatim>\<open>pd.to_numeric(..., errors="coerce")\<close>, and one log line.
  The constructor follows pandas: a list is a column, any other value but a dict is a
  scalar broadcast to the common length, lists of different lengths raise
  \<^verbatim>\<open>ValueError\<close>, and a dict of scalars only raises \<^verbatim>\<open>ValueError\<close> too. A dict used as
  a column (pandas aligns it on its keys) is outside the model (\<open>Unmodelled\<close>).
  The coercions are pandas' library code, modelled from pandas' sources as the
  specification describes them. \<^verbatim>\<open>to_numeric\<close> reads each cell on its own: numbers
  and booleans as numbers, strings through pandas' C float parser, anything else as null.
  \<^verbatim>\<open>to_datetime\<close> reads the time column as a whole: the layout guessed from its
  first non-null cell, when that is a string, is applied to every cell; otherwise each
  string is read by its own layout and each number as epoch nanoseconds. The layouts are
  the ISO date and date-time layouts the API sends; pandas' fallback parser
  (\<^verbatim>\<open>dateutil\<close>) accepts more strings, which read as null here. A cell is a real
  number and a timestamp has whole seconds, so an \<^verbatim>\<open>inf\<close> string and a fractional
  epoch instant, which pandas keeps, read as null in the model.\<close>

subsection \<open>Timestamps\<close>

definition is_leap :: "nat \<Rightarrow> bool" where
  "is_leap y \<longleftrightarrow> (4 dvd y \<and> \<not> 100 dvd y) \<or> 400 dvd y"

definition days_in_month :: "nat \<Rightarrow> nat \<Rightarrow> nat" where
  "days_in_month y m =
     (if m = 2 then (if is_leap y then 29 else 28) else if m \<in> {4, 6, 9, 11} then 30 else 31)"

text \<open>A timestamp's fields read as one number, for comparing with pandas' bounds
  (1677-09-21 00:12:43.15 to 2262-04-11 23:47:16.85, the range of 64-bit nanoseconds).\<close>

fun ts_key :: "timestamp \<Rightarrow> nat" where
  "ts_key (Timestamp y mo d h mi s) = ((((y * 100 + mo) * 100 + d) * 100 + h) * 100 + mi) * 100 + s"

fun valid_timestamp :: "timestamp \<Rightarrow> bool" where
  "valid_timestamp (Timestamp y mo d h mi s) \<longleftrightarrow>
     1 \<le> mo \<and> mo \<le> 12 \<and> 1 \<le> d \<and> d \<le> days_in_month y mo \<and> h < 24 \<and> mi < 60 \<and> s < 60 \<and>
     ts_key (Timestamp 1677 9 21 0 12 44) \<le> ts_key (Timestamp y mo d h mi s) \<and>
     ts_key (Timestamp y mo d h mi s) \<le> ts_key (Timestamp 2262 4 11 23 47 16)"

text \<open>The ISO layouts pandas guesses for the API's strings: \<open>YYYY-MM-DD\<close>,
  \<open>YYYY-MM-DD?HH:MM\<close> and \<open>YYYY-MM-DD?HH:MM:SS\<close>, the separator \<open>?\<close> a \<open>T\<close> or a space.\<close>

datatype iso_layout = LDate | LMinute char | LSecond char

definition iso_layouts :: "iso_layout list" where
  "iso_layouts = [LDate, LMinute CHR ''T'', LMinute CHR '' '', LSecond CHR ''T'', LSecond CHR '' '']"

fun layout_length :: "iso_layout \<Rightarrow> nat" where
  "layout_length LDate = 10"
| "layout_length (LMinute _) = 16"
| "layout_length (LSecond _) = 19"

fun layout_punct_ok :: "iso_layout \<Rightarrow> string \<Rightarrow> bool" where
  "layout_punct_ok LDate s = True"
| "layout_punct_ok (LMinute c) s \<longleftrightarrow> s ! 10 = c \<and> s ! 13 = CHR '':''"
| "layout_punct_ok (LSecond c) s \<longleftrightarrow> s ! 10 = c \<and> s ! 13 = CHR '':'' \<and> s ! 16 = CHR '':''"

fun calendar_ok :: "timestamp \<Rightarrow> bool" where
  "calendar_ok (Timestamp y mo d h mi s) \<longleftrightarrow>
     1 \<le> mo \<and> mo \<le> 12 \<and> 1 \<le> d \<and> d \<le> days_in_month y mo \<and> h < 24 \<and> mi < 60 \<and> s < 60"

definition digits_at :: "string \<Rightarrow> nat \<Rightarrow> nat \<Rightarrow> nat option" where
  "digits_at s i k = nat_of_digits (take k (drop i s))"

text \<open>A string read exactly in one layout, to a date of the calendar (the range is
  checked apart, by \<open>in_range\<close>).\<close>

definition parse_layout :: "iso_layout \<Rightarrow> string \<Rightarrow> timestamp option" where
  "parse_layout L s =
     (if length s \<noteq> layout_length L \<or> s ! 4 \<noteq> CHR ''-'' \<or> s ! 7 \<noteq> CHR ''-'' \<or> \<not> layout_punct_ok L s
      then None
      else
        (case (digits_at s 0 4, digits_at s 5 2, digits_at s 8 2,
               if L = LDate then Some 0 else digits_at s 11 2,
               if L = LDate then Some 0 else digits_at s 14 2,
               case L of LSecond _ \<Rightarrow> digits_at s 17 2 | _ \<Rightarrow> Some 0) of
           (Some y, Some mo, Some d, Some h, Some mi, Some sec) \<Rightarrow>
             (let t = Timestamp y mo d h mi sec in if calendar_ok t then Some t else None)
         | _ \<Rightarrow> None))"

definition in_range :: "timestamp option \<Rightarrow> timestamp option" where
  "in_range t = (case t of Some t' \<Rightarrow> if valid_timestamp t' then Some t' else None | None \<Rightarrow> None)"

text \<open>pandas' guess of a string's format (\<^verbatim>\<open>guess_datetime_format\<close>), within the
  layouts above.\<close>

definition guess_layout :: "string \<Rightarrow> iso_layout option" where
  "guess_layout s = find (\<lambda>L. parse_layout L s \<noteq> None) iso_layouts"

text \<open>A string read without a format: the first layout it fits, within pandas' range.\<close>

definition parse_iso :: "string \<Rightarrow> timestamp option" where
  "parse_iso s = (case guess_layout s of Some L \<Rightarrow> in_range (parse_layout L s) | None \<Rightarrow> None)"

text \<open>A number read as nanoseconds since 1970-01-01 (the days turned into a date of the
  proleptic Gregorian calendar by the era algorithm). A timestamp of the model has whole
  seconds; an instant with a fraction of a second is outside the model and reads as null.\<close>

definition civil_of_days :: "int \<Rightarrow> int \<times> nat \<times> nat" where
  "civil_of_days z0 =
     (let z = z0 + 719468; era = z div 146097; doe = z - era * 146097;
          yoe = (doe - doe div 1460 + doe div 36524 - doe div 146096) div 365;
          doy = doe - (365 * yoe + yoe div 4 - yoe div 100);
          mp = (5 * doy + 2) div 153;
          d = doy - (153 * mp + 2) div 5 + 1;
          m = (if mp < 10 then mp + 3 else mp - 9)
      in (yoe + era * 400 + (if m \<le> 2 then 1 else 0), nat m, nat d))"

definition epoch_ns_timestamp :: "int \<Rightarrow> timestamp option" where
  "epoch_ns_timestamp ns =
     (if ns mod 10 ^ 9 \<noteq> 0 then None
      else
        (let secs = ns div 10 ^ 9; r = secs mod 86400; (y, m, d) = civil_of_days (secs div 86400)
         in if y < 0 then None
            else in_range (Some (Timestamp (nat y) m d (nat (r div 3600)) (nat (r mod 3600 div 60)) (nat (r mod 60))))))"

text \<open>How \<^verbatim>\<open>pd.to_datetime(..., errors="coerce")\<close> reads a column: when its first
  non-null cell (\<^verbatim>\<open>tslib.first_non_null\<close>: not null, not empty and not a NaT string) is a
  string of a guessed layout, every cell is read with that layout (\<^verbatim>\<open>array_strptime\<close>:
  a number is turned into its \<^verbatim>\<open>str\<close>, which no layout matches); otherwise each
  cell is read on its own (\<^verbatim>\<open>array_to_datetime\<close>: a string by its own layout, a number
  as epoch nanoseconds, a float truncated to an integer).\<close>

datatype time_reading = Strptime iso_layout | Inferred

fun null_like :: "jval \<Rightarrow> bool" where
  "null_like JNull = True"
| "null_like (JStr s) \<longleftrightarrow> s \<in> {[], ''NaT'', ''nat'', ''NAT'', ''nan'', ''NaN'', ''NAN'', ''now'', ''today''}"
| "null_like _ = False"

definition time_reading :: "jval list \<Rightarrow> time_reading" where
  "time_reading ts =
     (case find (\<lambda>v. \<not> null_like v) ts of
        Some (JStr s) \<Rightarrow> (case guess_layout s of Some L \<Rightarrow> Strptime L | None \<Rightarrow> Inferred)
      | _ \<Rightarrow> Inferred)"

fun to_datetime_cell :: "time_reading \<Rightarrow> jval \<Rightarrow> timestamp option" where
  "to_datetime_cell (Strptime L) (JStr s) = in_range (parse_layout L s)"
| "to_datetime_cell Inferred (JStr s) = parse_iso s"
| "to_datetime_cell Inferred (JInt i) = epoch_ns_timestamp i"
| "to_datetime_cell Inferred (JFloat r) = epoch_ns_timestamp (if 0 \<le> r then \<lfloor>r\<rfloor> else \<lceil>r\<rceil>)"
| "to_datetime_cell _ _ = None"

subsection \<open>Numbers\<close>

text \<open>How \<^verbatim>\<open>pd.to_numeric(..., errors="coerce")\<close> reads a cell
  (\<^verbatim>\<open>maybe_convert_numeric\<close>): an integer or a float as itself, a boolean as 1 or 0,
  a string through pandas' C parser (\<^verbatim>\<open>floatify\<close>: surrounding ASCII whitespace, a
  sign, digits with an optional fraction and exponent, no underscores), anything else
  null. The string \<^verbatim>\<open>nan\<close> is null in pandas too; \<^verbatim>\<open>inf\<close>, an infinite float in pandas,
  is not a real and reads as null in the model, as does a literal out of the double
  range.\<close>

definition c_isspace :: "char \<Rightarrow> bool" where
  "c_isspace c \<longleftrightarrow> of_char c \<in> {9, 10, 11, 12, 13, 32 :: nat}"

definition pandas_floatify :: "string \<Rightarrow> real option" where
  "pandas_floatify s =
     (let (sg, body) = split_sign (strip_by c_isspace s)
      in map_option (\<lambda>r. sg * r) (parse_float_literal digits_only body))"

fun to_numeric_cell :: "jval \<Rightarrow> real option" where
  "to_numeric_cell (JInt i) = Some (of_int i)"
| "to_numeric_cell (JFloat r) = Some r"
| "to_numeric_cell (JBool b) = Some (if b then 1 else 0)"
| "to_numeric_cell (JStr s) = pandas_floatify s"
| "to_numeric_cell _ = None"

subsection \<open>The DataFrame constructor\<close>

fun as_series :: "jval \<Rightarrow> jval list option" where
  "as_series (JArr xs) = Some xs"
| "as_series _ = None"

fun is_dict :: "jval \<Rightarrow> bool" where
  "is_dict (JObj _) = True"
| "is_dict _ = False"

definition column_cells :: "nat \<Rightarrow> jval \<Rightarrow> jval list" where
  "column_cells n c = (case as_series c of Some xs \<Rightarrow> xs | None \<Rightarrow> replicate n c)"

definition dataframe3 :: "jval \<Rightarrow> jval \<Rightarrow> jval \<Rightarrow> error + (jval \<times> jval \<times> jval) list" where
  "dataframe3 a b c =
     (if is_dict a \<or> is_dict b \<or> is_dict c then Inl (Unmodelled ''a dict used as a column'')
      else
        let lens = List.map_filter (map_option length \<circ> as_series) [a, b, c] in
        if lens = [] then Inl (ValueError ''If using all scalar values, you must pass an index'')
        else if list_all (\<lambda>l. l = hd lens) lens
        then Inr (zip (column_cells (hd lens) a) (zip (column_cells (hd lens) b) (column_cells (hd lens) c)))
        else Inl (ValueError ''All arrays must be of the same length''))"

fun coerce_row :: "time_reading \<Rightarrow> jval \<times> jval \<times> jval \<Rightarrow> row" where
  "coerce_row r (t, a, h) =
     \<lparr>time = to_datetime_cell r t, temperature_2m = to_numeric_cell a, relative_humidity_2m = to_numeric_cell h\<rparr>"

text \<open>The three column coercions of lines 88--90, row by row; the time column is read
  as a whole.\<close>

definition coerce_rows :: "(jval \<times> jval \<times> jval) list \<Rightarrow> row list" where
  "coerce_rows cells = map (coerce_row (time_reading (map fst cells))) cells"

subsection \<open>The operation\<close>

definition transform_weather_hourly :: "jval \<Rightarrow> frame eff" where
  "transform_weather_hourly data =
     ebind (elift (py_get data ''hourly'' (JObj []))) (\<lambda>hourly.
     ebind (elift (py_get hourly ''time'' (JArr []))) (\<lambda>t.
     ebind (elift (py_get hourly ''temperature_2m'' (JArr []))) (\<lambda>a.
     ebind (elift (py_get hourly ''relative_humidity_2m'' (JArr []))) (\<lambda>h.
     ebind (elift (dataframe3 t a h)) (\<lambda>cells.
       let df = \<lparr>df_columns = weather_columns, df_rows = coerce_rows cells\<rparr> in
       ebind (log_msg INFO (Transformed (length (df_rows df)) (df_columns df))) (\<lambda>_. eret df))))))"

subsection \<open>Example payloads\<close>

text \<open>The payload of the scenario of the specification (section 8), and one whose
  \<^verbatim>\<open>temperature_2m\<close> series is missing.\<close>

definition scenario_payload :: jval where
  "scenario_payload =
     JObj [(''hourly'', JObj
       [(''time'', JArr [JStr ''2024-01-01T00:00'', JStr ''2024-01-01T00:00'', JStr ''2024-01-01T01:00'']),
        (''temperature_2m'', JArr [JFloat 25, JFloat 25, JFloat 26.5]),
        (''relative_humidity_2m'', JArr [JInt 150, JInt 60, JInt 70])])]"

definition payload_missing_temperature :: jval where
  "payload_missing_temperature =
     JObj [(''hourly'', JObj
       [(''time'', JArr [JStr ''2024-01-01T00:00'']), (''relative_humidity_2m'', JArr [JInt 50])])]"

subsection \<open>Lemmas\<close>

lemmas iso_simps = parse_iso_def guess_layout_def iso_layouts_def parse_layout_def digits_at_def
  nat_of_digits_def digit_val_def in_range_def days_in_month_def is_leap_def

lemma length_coerce_rows [simp]: "length (coerce_rows cells) = length cells"
  by (simp add: coerce_rows_def)

lemma dataframe3_arrays:
  assumes "length ys = length xs" and "length zs = length xs"
  shows "dataframe3 (JArr xs) (JArr ys) (JArr zs) = Inr (zip xs (zip ys zs))"
  using assms by (simp add: dataframe3_def column_cells_def)

lemma dataframe3_arrays_mismatch:
  assumes "\<not> (length ys = length xs \<and> length zs = length xs)"
  shows "dataframe3 (JArr xs) (JArr ys) (JArr zs) = Inl (ValueError ''All arrays must be of the same length'')"
  using assms by (auto simp: dataframe3_def)

lemma column_cells_length:
  assumes "list_all (\<lambda>l. l = n) (List.map_filter (map_option length \<circ> as_series) cs)" and "c \<in> set cs"
  shows "length (column_cells n c) = n"
  using assms by (induction cs) (auto simp: column_cells_def map_filter_simps split: option.splits)

lemma dataframe3_length:
  assumes "dataframe3 a b c = Inr cells" and "as_series a = Some xs"
  shows "length cells = length xs"
proof -
  let ?lens = "List.map_filter (map_option length \<circ> as_series) [a, b, c]"
  have hd: "hd ?lens = length xs" and ne: "?lens \<noteq> []"
    using assms(2) by (simp_all add: map_filter_simps)
  from assms(1) ne have all: "list_all (\<lambda>l. l = hd ?lens) ?lens"
    and cells: "cells = zip (column_cells (hd ?lens) a) (zip (column_cells (hd ?lens) b) (column_cells (hd ?lens) c))"
    by (auto simp: dataframe3_def Let_def split: if_splits)
  have "length (column_cells (hd ?lens) x) = hd ?lens" if "x \<in> set [a, b, c]" for x
    using all that by (rule column_cells_length)
  then show ?thesis unfolding cells hd by simp
qed

lemma transform_weather_hourly_Inr_E:
  assumes "transform_weather_hourly data w = (Inr df, w')"
  obtains hourly t a h cells where
    "py_get data ''hourly'' (JObj []) = Inr hourly" and "py_get hourly ''time'' (JArr []) = Inr t"
    and "py_get hourly ''temperature_2m'' (JArr []) = Inr a"
    and "py_get hourly ''relative_humidity_2m'' (JArr []) = Inr h"
    and "dataframe3 t a h = Inr cells"
    and "df = \<lparr>df_columns = weather_columns, df_rows = coerce_rows cells\<rparr>"
    and "w' = w\<lparr>w_log := w_log w @ [(INFO, Transformed (length cells) weather_columns)]\<rparr>"
  using assms
  by (auto simp: transform_weather_hourly_def etl_simps split: sum.splits prod.splits)

lemma length_show_nat_le: "n < 10 ^ k \<Longrightarrow> 0 < k \<Longrightarrow> length (show_nat n) \<le> k"
proof (induction n arbitrary: k rule: show_nat.induct)
  case (1 n)
  show ?case
  proof (cases "n < 10")
    case True
    with "1.prems" show ?thesis by (subst show_nat.simps) simp
  next
    case False
    have k: "2 \<le> k"
    proof (rule ccontr)
      assume "\<not> 2 \<le> k"
      with "1.prems"(2) have "k = 1" by simp
      with "1.prems"(1) False show False by simp
    qed
    then obtain k' where k': "k = Suc k'" by (cases k) auto
    with "1.prems"(1) have "n div 10 < 10 ^ k'"
      by (simp add: less_mult_imp_div_less mult.commute)
    with k' have "n div 10 < 10 ^ (k - 1)" by simp
    with False k "1.IH" [of "k - 1"] have "length (show_nat (n div 10)) \<le> k - 1" by simp
    with False k show ?thesis by (subst show_nat.simps) simp
  qed
qed

lemma length_zero_pad_show_nat: "n < 10 ^ k \<Longrightarrow> 0 < k \<Longrightarrow> length (zero_pad k (show_nat n)) = k"
  by (simp add: length_zero_pad length_show_nat_le)

lemma length_2_conv: "length xs = 2 \<longleftrightarrow> (\<exists>a b. xs = [a, b])"
  by (auto simp: numeral_2_eq_2 length_Suc_conv)

lemma length_4_conv: "length xs = 4 \<longleftrightarrow> (\<exists>a b c d. xs = [a, b, c, d])"
  by (auto simp: numeral_eq_Suc length_Suc_conv)

lemma parse_iso_scenario:
  "parse_iso ''2024-01-01T00:00'' = Some (Timestamp 2024 1 1 0 0 0)"
  "parse_iso ''2024-01-01T01:00'' = Some (Timestamp 2024 1 1 1 0 0)"
  by (simp_all add: iso_simps)

lemma coerce_rows_scenario:
  "coerce_rows [(JStr ''2024-01-01T00:00'', JFloat 25, JInt 150), (JStr ''2024-01-01T00:00'', JFloat 25, JInt 60),
                (JStr ''2024-01-01T01:00'', JFloat 26.5, JInt 70)] =
     [\<lparr>time = Some (Timestamp 2024 1 1 0 0 0), temperature_2m = Some 25, relative_humidity_2m = Some 150\<rparr>,
      \<lparr>time = Some (Timestamp 2024 1 1 0 0 0), temperature_2m = Some 25, relative_humidity_2m = Some 60\<rparr>,
      \<lparr>time = Some (Timestamp 2024 1 1 1 0 0), temperature_2m = Some 26.5, relative_humidity_2m = Some 70\<rparr>]"
  by (simp add: coerce_rows_def time_reading_def iso_simps)

lemma transform_weather_hourly_fst:
  "fst (transform_weather_hourly raw w) = fst (transform_weather_hourly raw w')"
  by (simp add: transform_weather_hourly_def etl_simps Let_def split: sum.splits)

lemma transform_scenario:
  "transform_weather_hourly scenario_payload initial_world =
     (Inr \<lparr>df_columns = weather_columns,
           df_rows = [\<lparr>time = Some (Timestamp 2024 1 1 0 0 0), temperature_2m = Some 25, relative_humidity_2m = Some 150\<rparr>,
                      \<lparr>time = Some (Timestamp 2024 1 1 0 0 0), temperature_2m = Some 25, relative_humidity_2m = Some 60\<rparr>,
                      \<lparr>time = Some (Timestamp 2024 1 1 1 0 0), temperature_2m = Some 26.5, relative_humidity_2m = Some 70\<rparr>]\<rparr>,
      initial_world\<lparr>w_log := [(INFO, Transformed 3 weather_columns)]\<rparr>)"
  by (simp add: transform_weather_hourly_def scenario_payload_def etl_simps dataframe3_arrays
      coerce_rows_scenario[simplified] initial_world_def)



lemma coerce_examples:
  "civil_of_days 19723 = (2024, 1, 1)" "civil_of_days 0 = (1970, 1, 1)" "civil_of_days (-1) = (1969, 12, 31)"
  by code_simp+

lemma coerce_rows_examples:
  "coerce_rows [(JStr ''2024-01-01 00:00'', JStr '' 1e2 '', JBool True), (JStr ''2024-01-01T01:00'', JStr ''1_0'', JStr ''nan''),
                (JInt 5, JStr ''-.5'', JStr ''1e'')] =
     [\<lparr>time = Some (Timestamp 2024 1 1 0 0 0), temperature_2m = Some 100, relative_humidity_2m = Some 1\<rparr>,
      \<lparr>time = None, temperature_2m = None, relative_humidity_2m = None\<rparr>,
      \<lparr>time = None, temperature_2m = Some (-0.5), relative_humidity_2m = None\<rparr>]"
  "coerce_rows [(JNull, JInt 1, JInt 2), (JInt 0, JInt 1, JInt 2), (JStr ''2024-01-01'', JInt 1, JInt 2)] =
     [\<lparr>time = None, temperature_2m = Some 1, relative_humidity_2m = Some 2\<rparr>,
      \<lparr>time = Some (Timestamp 1970 1 1 0 0 0), temperature_2m = Some 1, relative_humidity_2m = Some 2\<rparr>,
      \<lparr>time = Some (Timestamp 2024 1 1 0 0 0), temperature_2m = Some 1, relative_humidity_2m = Some 2\<rparr>]"
  by (simp_all add: coerce_rows_def time_reading_def iso_simps pandas_floatify_def py_float_simps c_isspace_def
      epoch_ns_timestamp_def coerce_examples)

subsection \<open>Properties of the transformer\<close>



text \<open>C23: when the three series are lists of one length, the frame has the three columns
  and row \<open>i\<close> holds the coerced \<open>i\<close>-th elements; one log line gives the row count.\<close>

theorem transform_weather_hourly_arrays:
  assumes "py_get data ''hourly'' (JObj []) = Inr hourly"
    and "py_get hourly ''time'' (JArr []) = Inr (JArr ts)"
    and "py_get hourly ''temperature_2m'' (JArr []) = Inr (JArr temps)"
    and "py_get hourly ''relative_humidity_2m'' (JArr []) = Inr (JArr hums)"
    and "length temps = length ts" and "length hums = length ts"
  shows "transform_weather_hourly data w =
     (Inr \<lparr>df_columns = weather_columns, df_rows = coerce_rows (zip ts (zip temps hums))\<rparr>,
      w\<lparr>w_log := w_log w @ [(INFO, Transformed (length ts) weather_columns)]\<rparr>)"
  using assms by (simp add: transform_weather_hourly_def etl_simps dataframe3_arrays)

theorem transform_weather_hourly_arrays_witness:
  "transform_weather_hourly scenario_payload initial_world =
     (Inr \<lparr>df_columns = weather_columns, df_rows = coerce_rows
        (zip [JStr ''2024-01-01T00:00'', JStr ''2024-01-01T00:00'', JStr ''2024-01-01T01:00'']
          (zip [JFloat 25, JFloat 25, JFloat 26.5] [JInt 150, JInt 60, JInt 70]))\<rparr>,
      initial_world\<lparr>w_log := w_log initial_world @ [(INFO, Transformed 3 weather_columns)]\<rparr>)"
  using transform_weather_hourly_arrays [where data = scenario_payload and w = initial_world
      and ts = "[JStr ''2024-01-01T00:00'', JStr ''2024-01-01T00:00'', JStr ''2024-01-01T01:00'']"
      and temps = "[JFloat 25, JFloat 25, JFloat 26.5]" and hums = "[JInt 150, JInt 60, JInt 70]"]
  by (simp add: scenario_payload_def)

text \<open>C12: whenever the transformer succeeds and the time series is a list, the frame has
  one row per element of that list and the three required columns.\<close>

theorem transform_row_count:
  assumes "transform_weather_hourly data w = (Inr df, w')"
    and "py_get data ''hourly'' (JObj []) = Inr hourly"
    and "py_get hourly ''time'' (JArr []) = Inr (JArr ts)"
  shows "length (df_rows df) = length ts \<and> df_columns df = weather_columns"
proof -
  from assms(1) obtain hourly' t a h cells where
    g: "py_get data ''hourly'' (JObj []) = Inr hourly'" and
    t: "py_get hourly' ''time'' (JArr []) = Inr t" and
    c: "dataframe3 t a h = Inr cells" and
    df: "df = \<lparr>df_columns = weather_columns, df_rows = coerce_rows cells\<rparr>"
    by (rule transform_weather_hourly_Inr_E)
  from g t assms(2,3) have "t = JArr ts" by simp
  with c have "length cells = length ts" using dataframe3_length by simp
  with df show ?thesis by simp
qed

theorem transform_row_count_witness:
  "length (df_rows \<lparr>df_columns = weather_columns,
     df_rows = [\<lparr>time = Some (Timestamp 2024 1 1 0 0 0), temperature_2m = Some 25, relative_humidity_2m = Some 150\<rparr>,
                \<lparr>time = Some (Timestamp 2024 1 1 0 0 0), temperature_2m = Some 25, relative_humidity_2m = Some 60\<rparr>,
                \<lparr>time = Some (Timestamp 2024 1 1 1 0 0), temperature_2m = Some 26.5, relative_humidity_2m = Some 70\<rparr>]\<rparr>)
   = length [JStr ''2024-01-01T00:00'', JStr ''2024-01-01T00:00'', JStr ''2024-01-01T01:00'']"
proof -
  have h: "py_get scenario_payload ''hourly'' (JObj []) = Inr (JObj
       [(''time'', JArr [JStr ''2024-01-01T00:00'', JStr ''2024-01-01T00:00'', JStr ''2024-01-01T01:00'']),
        (''temperature_2m'', JArr [JFloat 25, JFloat 25, JFloat 26.5]),
        (''relative_humidity_2m'', JArr [JInt 150, JInt 60, JInt 70])])"
    by (simp add: scenario_payload_def)
  have t: "py_get (JObj
       [(''time'', JArr [JStr ''2024-01-01T00:00'', JStr ''2024-01-01T00:00'', JStr ''2024-01-01T01:00'']),
        (''temperature_2m'', JArr [JFloat 25, JFloat 25, JFloat 26.5]),
        (''relative_humidity_2m'', JArr [JInt 150, JInt 60, JInt 70])]) ''time'' (JArr []) =
       Inr (JArr [JStr ''2024-01-01T00:00'', JStr ''2024-01-01T00:00'', JStr ''2024-01-01T01:00''])"
    by simp
  show ?thesis using transform_row_count [OF transform_scenario h t] by simp
qed

text \<open>C24: series lists of different lengths make the transformer raise
  \<^verbatim>\<open>ValueError\<close> before it logs; a missing series defaults to the empty list and so
  fails the same way as soon as the time series is non-empty.\<close>

theorem transform_length_mismatch:
  assumes "py_get data ''hourly'' (JObj []) = Inr hourly"
    and "py_get hourly ''time'' (JArr []) = Inr (JArr ts)"
    and "py_get hourly ''temperature_2m'' (JArr []) = Inr (JArr temps)"
    and "py_get hourly ''relative_humidity_2m'' (JArr []) = Inr (JArr hums)"
    and "length temps \<noteq> length ts \<or> length hums \<noteq> length ts"
  shows "transform_weather_hourly data w = (Inl (ValueError ''All arrays must be of the same length''), w)"
  using assms by (simp add: transform_weather_hourly_def etl_simps dataframe3_arrays_mismatch)

theorem transform_length_mismatch_witness:
  "transform_weather_hourly payload_missing_temperature initial_world =
     (Inl (ValueError ''All arrays must be of the same length''), initial_world)"
  using transform_length_mismatch [where data = payload_missing_temperature and w = initial_world
      and ts = "[JStr ''2024-01-01T00:00'']" and temps = "[]" and hums = "[JInt 50]"]
  by (simp add: payload_missing_temperature_def)

text \<open>C25: a payload that is not a JSON object (\<^verbatim>\<open>None\<close> included) makes the
  transformer raise \<^verbatim>\<open>AttributeError\<close> before it logs.\<close>

theorem transform_not_dict:
  assumes "\<not> is_dict data"
  shows "transform_weather_hourly data w = (Inl (AttributeError ''get''), w)"
  using assms by (cases data) (simp_all add: transform_weather_hourly_def etl_simps)

theorem transform_not_dict_witness:
  "transform_weather_hourly JNull initial_world = (Inl (AttributeError ''get''), initial_world)"
  by (rule transform_not_dict) simp

end
