(* ===== verification/Sinks.thy ===== *)
theory Sinks
  imports Transform
begin

text \<open>
  The writers of \<^verbatim>\<open>src/functions.py\<close> other than the loader: \<^verbatim>\<open>setup_logger\<close>
  (lines 14--31), \<^verbatim>\<open>archive_raw_json\<close> (lines 34--41) and \<^verbatim>\<open>save_rejected_csv\<close>
  (lines 44--47). Each creates its directory with \<^verbatim>\<open>os.makedirs(..., exist_ok=True)\<close>,
  writes one whole file (a JSON document or a CSV table, kept as the value written: the
  serialisers are library code) and logs one line. \<^verbatim>\<open>setup_logger\<close> creates the log's directory and
  opens the log file for appending (its \<^verbatim>\<open>FileHandler\<close>); the level, the format and
  the console handler are not state the program reads back.
\<close>

definition setup_logger :: "string \<Rightarrow> unit eff" where
  "setup_logger log_path = ebind (makedirs (dirname log_path)) (\<lambda>_. open_append log_path)"

text \<open>\<^verbatim>\<open>datetime.utcnow().strftime("%Y%m%d_%H%M%S")\<close>.\<close>

fun strftime_stamp :: "timestamp \<Rightarrow> string" where
  "strftime_stamp (Timestamp y mo d h mi s) =
     zero_pad 4 (show_nat y) @ zero_pad 2 (show_nat mo) @ zero_pad 2 (show_nat d) @ ''_'' @
     zero_pad 2 (show_nat h) @ zero_pad 2 (show_nat mi) @ zero_pad 2 (show_nat s)"

definition archive_path :: "string \<Rightarrow> string \<Rightarrow> timestamp \<Rightarrow> string" where
  "archive_path raw_dir prefix now = path_join raw_dir (prefix @ ''_'' @ strftime_stamp now @ ''.json'')"

definition archive_raw_json :: "jval \<Rightarrow> string \<Rightarrow> string \<Rightarrow> string eff" where
  "archive_raw_json data raw_dir prefix =
     ebind (makedirs raw_dir) (\<lambda>_.
     ebind (ereads w_now) (\<lambda>now.
       let path = archive_path raw_dir prefix now in
       ebind (write_file path (JsonFile data)) (\<lambda>_.
       ebind (log_msg INFO (ArchivedRaw path)) (\<lambda>_. eret path))))"

definition save_rejected_csv :: "frame \<Rightarrow> string \<Rightarrow> unit eff" where
  "save_rejected_csv df path =
     ebind (makedirs (dirname path)) (\<lambda>_.
     ebind (write_file path (CsvFile (df_columns df) (df_rows df))) (\<lambda>_.
     log_msg INFO (RejectsSaved path)))"

text \<open>Reading a JSON file back (\<^verbatim>\<open>json.load\<close>), for the replay the archive exists for.\<close>

definition read_json :: "world \<Rightarrow> string \<Rightarrow> jval option" where
  "read_json w p = (case w_files w p of Some (JsonFile v) \<Rightarrow> Some v | _ \<Rightarrow> None)"

text \<open>Reading a stamp back: the inverse of \<open>strftime_stamp\<close> on its fixed layout.\<close>

definition parse_stamp :: "string \<Rightarrow> timestamp option" where
  "parse_stamp s =
     (if length s \<noteq> 15 \<or> s ! 8 \<noteq> CHR ''_'' then None
      else case (digits_at s 0 4, digits_at s 4 2, digits_at s 6 2, digits_at s 9 2, digits_at s 11 2,
                 digits_at s 13 2) of
        (Some y, Some mo, Some d, Some h, Some mi, Some sec) \<Rightarrow> Some (Timestamp y mo d h mi sec)
      | _ \<Rightarrow> None)"

subsection \<open>Lemmas\<close>

lemma archive_raw_json_Inr_E:
  assumes "archive_raw_json data raw_dir prefix w = (Inr path, w')"
  shows "path = archive_path raw_dir prefix (w_now w) \<and>
         w' = w\<lparr>w_dirs := w_dirs w \<union> set (dir_chain raw_dir),
                 w_files := (w_files w)(path \<mapsto> JsonFile data),
                 w_log := w_log w @ [(INFO, ArchivedRaw path)]\<rparr>"
  using assms
  by (auto simp: archive_raw_json_def etl_simps Let_def split: prod.splits sum.splits
      dest!: makedirs_Inr_E write_file_Inr_E)

lemma strftime_stamp_layout:
  assumes "length A = 4" "length B = 2" "length C = 2" "length D = 2" "length E = 2" "length F = 2"
  shows "parse_stamp (A @ B @ C @ ''_'' @ D @ E @ F) =
    (case (nat_of_digits A, nat_of_digits B, nat_of_digits C, nat_of_digits D, nat_of_digits E, nat_of_digits F) of
       (Some y, Some mo, Some d, Some h, Some mi, Some sec) \<Rightarrow> Some (Timestamp y mo d h mi sec)
     | _ \<Rightarrow> None)"
proof -
  from assms obtain a1 a2 a3 a4 b1 b2 c1 c2 d1 d2 e1 e2 f1 f2 where
    "A = [a1, a2, a3, a4]" "B = [b1, b2]" "C = [c1, c2]" "D = [d1, d2]" "E = [e1, e2]" "F = [f1, f2]"
    by (auto simp: length_2_conv length_4_conv)
  then show ?thesis by (simp add: parse_stamp_def digits_at_def)
qed

lemma parse_strftime_stamp:
  assumes "valid_timestamp t"
  shows "parse_stamp (strftime_stamp t) = Some t"
proof (cases t)
  case (Timestamp y mo d h mi sec)
  with assms have b: "y < 10 ^ 4" "mo < 10 ^ 2" "d < 10 ^ 2" "h < 10 ^ 2" "mi < 10 ^ 2" "sec < 10 ^ 2"
    by (auto simp: days_in_month_def split: if_splits)
  note lens = length_zero_pad_show_nat [OF b(1) zero_less_numeral] length_zero_pad_show_nat [OF b(2) zero_less_numeral]
    length_zero_pad_show_nat [OF b(3) zero_less_numeral] length_zero_pad_show_nat [OF b(4) zero_less_numeral]
    length_zero_pad_show_nat [OF b(5) zero_less_numeral] length_zero_pad_show_nat [OF b(6) zero_less_numeral]
  have "parse_stamp (strftime_stamp t) =
     (case (nat_of_digits (zero_pad 4 (show_nat y)), nat_of_digits (zero_pad 2 (show_nat mo)),
            nat_of_digits (zero_pad 2 (show_nat d)), nat_of_digits (zero_pad 2 (show_nat h)),
            nat_of_digits (zero_pad 2 (show_nat mi)), nat_of_digits (zero_pad 2 (show_nat sec))) of
       (Some y, Some mo, Some d, Some h, Some mi, Some sec) \<Rightarrow> Some (Timestamp y mo d h mi sec)
     | _ \<Rightarrow> None)"
    unfolding Timestamp strftime_stamp.simps by (rule strftime_stamp_layout [OF lens])
  with Timestamp show ?thesis by (simp only: nat_of_digits_zero_pad prod.case option.case)
qed

lemma path_join_same_prefix:
  assumes "path_join a (p @ x # s1) = path_join a (p @ x # s2)"
  shows "s1 = s2"
proof -
  have "p @ x # s1 = p @ x # s2"
    using assms by (rule path_join_inj) (cases p; simp)+
  then show ?thesis by simp
qed


lemma save_rejected_csv_Inr_E:
  assumes "save_rejected_csv df path w = (Inr u, w')"
  shows "w' = w\<lparr>w_dirs := w_dirs w \<union> set (dir_chain (dirname path)),
                 w_files := (w_files w)(path \<mapsto> CsvFile (df_columns df) (df_rows df)),
                 w_log := w_log w @ [(INFO, RejectsSaved path)]\<rparr>"
  using assms
  by (auto simp: save_rejected_csv_def etl_simps split: prod.splits sum.splits
      dest!: makedirs_Inr_E write_file_Inr_E)

lemma setup_logger_Inr_E:
  assumes "setup_logger log_path w = (Inr u, w')"
  shows "dirname log_path \<noteq> [] \<and>
         w' = w\<lparr>w_dirs := w_dirs w \<union> set (dir_chain (dirname log_path)),
                 w_files := (w_files w)(log_path := Some (case w_files w log_path of None \<Rightarrow> LogFile | Some c \<Rightarrow> c))\<rparr>"
proof -
  obtain x w1 where m: "makedirs (dirname log_path) w = (Inr x, w1)" and o: "open_append log_path w1 = (Inr u, w')"
    using assms unfolding setup_logger_def by (rule ebind_Inr_E)
  show ?thesis using makedirs_Inr_E [OF m refl] open_append_Inr_E [OF o] by simp
qed

lemma setup_logger_example:
  "setup_logger ''outputs/etl.log'' initial_world =
     (Inr (), initial_world\<lparr>w_dirs := {''outputs''}, w_files := [''outputs/etl.log'' \<mapsto> LogFile]\<rparr>)"
  by (simp add: setup_logger_def etl_simps makedirs_def open_append_def dir_chain_def dirname_def
      dir_exists_def initial_world_def)

lemma archive_path_example:
  "archive_path ''data/raw'' ''weather_raw'' (Timestamp 2024 (Suc 0) (Suc 0) 0 0 0) =
   ''data/raw/weather_raw_20240101_000000.json''"
  by code_simp

lemma archive_example:
  "archive_raw_json JNull ''data/raw'' ''weather_raw'' initial_world =
     (Inr ''data/raw/weather_raw_20240101_000000.json'',
      initial_world\<lparr>w_dirs := {''data'', ''data/raw''},
        w_files := [''data/raw/weather_raw_20240101_000000.json'' \<mapsto> JsonFile JNull],
        w_log := [(INFO, ArchivedRaw ''data/raw/weather_raw_20240101_000000.json'')]\<rparr>)"
  by (simp add: archive_raw_json_def archive_path_example etl_simps makedirs_def write_file_def
      dir_chain_def dirname_def dir_exists_def initial_world_def insert_commute Let_def)

lemma save_rejected_example:
  "save_rejected_csv \<lparr>df_columns = weather_columns, df_rows = []\<rparr> ''outputs/rejected_rows.csv'' initial_world =
     (Inr (), initial_world\<lparr>w_dirs := {''outputs''},
        w_files := [''outputs/rejected_rows.csv'' \<mapsto> CsvFile weather_columns []],
        w_log := [(INFO, RejectsSaved ''outputs/rejected_rows.csv'')]\<rparr>)"
  by (simp add: save_rejected_csv_def etl_simps makedirs_def write_file_def
      dir_chain_def dirname_def dir_exists_def initial_world_def)

subsection \<open>Properties of the writers\<close>

text \<open>C26: archive names of two different valid clock readings differ: within one second
  resolution, distinct runs never share an archive file.\<close>

theorem archive_path_injective:
  assumes "valid_timestamp t1" and "valid_timestamp t2"
    and "archive_path raw_dir prefix t1 = archive_path raw_dir prefix t2"
  shows "t1 = t2"
proof -
  have "strftime_stamp t1 @ ''.json'' = strftime_stamp t2 @ ''.json''"
    using assms(3) unfolding archive_path_def append_Cons append_Nil by (rule path_join_same_prefix)
  then have eq: "strftime_stamp t1 = strftime_stamp t2"
    by (simp only: append_same_eq)
  have "Some t1 = parse_stamp (strftime_stamp t1)"
    using parse_strftime_stamp [OF assms(1)] by (rule sym)
  also have "\<dots> = parse_stamp (strftime_stamp t2)"
    using eq by (rule arg_cong)
  also have "\<dots> = Some t2"
    using assms(2) by (rule parse_strftime_stamp)
  finally show ?thesis by simp
qed

theorem archive_path_injective_witness: "Timestamp 2024 1 1 0 0 0 = Timestamp 2024 1 1 0 0 0"
  by (rule archive_path_injective [where raw_dir = "''data/raw''" and prefix = "''weather_raw''"])
    (simp_all add: days_in_month_def)

text \<open>C27: two archives taken at the same clock second write the same file, and the
  second payload replaces the first.\<close>

theorem archive_same_second_overwrites:
  assumes "archive_raw_json d1 raw_dir prefix w = (Inr p1, w1)"
    and "archive_raw_json d2 raw_dir prefix w1 = (Inr p2, w2)"
  shows "p1 = p2 \<and> read_json w2 p1 = Some d2"
  using archive_raw_json_Inr_E [OF assms(1)] archive_raw_json_Inr_E [OF assms(2)]
  by (simp add: read_json_def)

theorem archive_same_second_overwrites_witness:
  "''data/raw/weather_raw_20240101_000000.json'' = ''data/raw/weather_raw_20240101_000000.json'' \<and>
   read_json (snd (archive_raw_json (JStr ''second'') ''data/raw'' ''weather_raw''
      (snd (archive_raw_json JNull ''data/raw'' ''weather_raw'' initial_world))))
     ''data/raw/weather_raw_20240101_000000.json'' = Some (JStr ''second'')"
proof -
  let ?w1 = "snd (archive_raw_json JNull ''data/raw'' ''weather_raw'' initial_world)"
  have a1: "archive_raw_json JNull ''data/raw'' ''weather_raw'' initial_world =
            (Inr ''data/raw/weather_raw_20240101_000000.json'', ?w1)"
    by (simp add: archive_example)
  have a2: "archive_raw_json (JStr ''second'') ''data/raw'' ''weather_raw'' ?w1 =
            (Inr ''data/raw/weather_raw_20240101_000000.json'',
             snd (archive_raw_json (JStr ''second'') ''data/raw'' ''weather_raw'' ?w1))"
    by (simp add: archive_example archive_raw_json_def archive_path_example etl_simps makedirs_def
        write_file_def dir_chain_def dirname_def dir_exists_def initial_world_def Let_def)
  show ?thesis using archive_same_second_overwrites [OF a1 a2] by simp
qed

text \<open>C28: the rejects file holds the frame's header and exactly its rows, so an empty
  rejected frame still produces a header-only file; nothing else is written.\<close>

theorem save_rejected_csv_writes:
  assumes "save_rejected_csv df path w = (Inr u, w')"
  shows "w_files w' path = Some (CsvFile (df_columns df) (df_rows df)) \<and>
         (\<forall>q. q \<noteq> path \<longrightarrow> w_files w' q = w_files w q) \<and> w_dbs w' = w_dbs w"
  using save_rejected_csv_Inr_E [OF assms] by simp

theorem save_rejected_csv_writes_witness:
  "w_files (initial_world\<lparr>w_dirs := {''outputs''},
        w_files := [''outputs/rejected_rows.csv'' \<mapsto> CsvFile weather_columns []],
        w_log := [(INFO, RejectsSaved ''outputs/rejected_rows.csv'')]\<rparr>) ''outputs/rejected_rows.csv'' =
   Some (CsvFile weather_columns [])"
  using save_rejected_csv_writes [OF save_rejected_example] by simp

text \<open>C29: a rejects path without a directory part makes \<^verbatim>\<open>save_rejected_csv\<close> fail in
  \<^verbatim>\<open>os.makedirs('')\<close> before anything is written or logged.\<close>

theorem save_rejected_csv_bare_filename:
  assumes "dirname path = []"
  shows "save_rejected_csv df path w = (Inl (OSError []), w)"
  using assms by (simp add: save_rejected_csv_def etl_simps)

theorem save_rejected_csv_bare_filename_witness:
  "save_rejected_csv \<lparr>df_columns = weather_columns, df_rows = []\<rparr> ''rejected_rows.csv'' initial_world =
   (Inl (OSError []), initial_world)"
  by (rule save_rejected_csv_bare_filename) (simp add: dirname_def)

text \<open>C30: the logger set-up creates the log's missing directories: whenever no file
  stands in the way of the directory chain and the log path is neither a directory nor
  refused, it succeeds, whether or not the directory existed before, and leaves the whole
  chain and the log file present, an existing log kept (opened for appending, not
  truncated); nothing else changes.\<close>

theorem setup_logger_creates_dirs:
  assumes "dirname log_path \<noteq> []"
    and "\<forall>d\<in>set (dir_chain (dirname log_path)). w_files w d = None"
    and "log_path \<notin> w_faulty w" and "log_path \<notin> w_dirs w \<union> set (dir_chain (dirname log_path))"
  shows "setup_logger log_path w =
     (Inr (), w\<lparr>w_dirs := w_dirs w \<union> set (dir_chain (dirname log_path)),
                w_files := (w_files w)(log_path \<mapsto> (case w_files w log_path of None \<Rightarrow> LogFile | Some c \<Rightarrow> c))\<rparr>)"
  using assms by (simp add: setup_logger_def ebind_def makedirs_def open_append_def dir_exists_def dir_chain_def)

theorem setup_logger_creates_dirs_witness:
  "setup_logger ''outputs/etl.log'' initial_world =
     (Inr (), initial_world\<lparr>w_dirs := {''outputs''}, w_files := [''outputs/etl.log'' \<mapsto> LogFile]\<rparr>)"
  using setup_logger_creates_dirs [of "''outputs/etl.log''" initial_world]
  by (simp add: dirname_def dir_chain_def initial_world_def)

end
