(* ===== verification/Load.thy ===== *)
theory Load
  imports World
begin

text \<open>
  \<^verbatim>\<open>load_to_sqlite\<close> (\<^verbatim>\<open>src/functions.py\<close>, lines 118--121). The engine is created
  lazily; \<^verbatim>\<open>to_sql(..., if_exists="replace", index=False)\<close> opens the SQLite file (which
  fails when its directory is missing, the path is a directory, or the system refuses it),
  drops the table and creates it anew with the frame's columns and rows; then one log line.
  A database is a map from table names to tables; the world holds one per file path.
\<close>

definition sqlite_open_ok :: "world \<Rightarrow> string \<Rightarrow> bool" where
  "sqlite_open_ok w db_path \<longleftrightarrow>
     db_path \<notin> w_faulty w \<and> db_path \<notin> w_dirs w \<and> dir_exists w (dirname db_path)"

definition to_sql_replace :: "frame \<Rightarrow> string \<Rightarrow> string \<Rightarrow> unit eff" where
  "to_sql_replace df db_path table_name w =
     (if sqlite_open_ok w db_path
      then (Inr (), w\<lparr>w_dbs := (w_dbs w)(db_path :=
              (w_dbs w db_path)(table_name \<mapsto> SqlTable (df_columns df) (df_rows df)))\<rparr>)
      else (Inl (DBError db_path), w))"

definition load_to_sqlite :: "frame \<Rightarrow> string \<Rightarrow> string \<Rightarrow> unit eff" where
  "load_to_sqlite df db_path table_name =
     ebind (to_sql_replace df db_path table_name) (\<lambda>_.
     log_msg INFO (LoadedRows (length (df_rows df)) table_name db_path))"

subsection \<open>Lemmas\<close>

lemma load_to_sqlite_apply:
  "load_to_sqlite df db_path table_name w =
     (if sqlite_open_ok w db_path
      then (Inr (), w\<lparr>w_dbs := (w_dbs w)(db_path :=
              (w_dbs w db_path)(table_name \<mapsto> SqlTable (df_columns df) (df_rows df))),
              w_log := w_log w @ [(INFO, LoadedRows (length (df_rows df)) table_name db_path)]\<rparr>)
      else (Inl (DBError db_path), w))"
  by (simp add: load_to_sqlite_def to_sql_replace_def etl_simps)

lemma load_to_sqlite_Inr_E:
  assumes "load_to_sqlite df db_path table_name w = (Inr u, w')"
  shows "sqlite_open_ok w db_path \<and>
         w' = w\<lparr>w_dbs := (w_dbs w)(db_path :=
              (w_dbs w db_path)(table_name \<mapsto> SqlTable (df_columns df) (df_rows df))),
              w_log := w_log w @ [(INFO, LoadedRows (length (df_rows df)) table_name db_path)]\<rparr>"
  using assms by (simp add: load_to_sqlite_apply split: if_splits)

lemma sqlite_open_ok_dbs [simp]: "sqlite_open_ok (w\<lparr>w_dbs := d, w_log := l\<rparr>) p = sqlite_open_ok w p"
  by (simp add: sqlite_open_ok_def dir_exists_def)

lemma load_example:
  "load_to_sqlite \<lparr>df_columns = weather_columns, df_rows = []\<rparr> ''etl_demo.db'' ''weather_hourly'' initial_world =
   (Inr (), initial_world\<lparr>w_dbs := (\<lambda>_. Map.empty)(''etl_demo.db'' := [''weather_hourly'' \<mapsto> SqlTable weather_columns []]),
      w_log := [(INFO, LoadedRows 0 ''weather_hourly'' ''etl_demo.db'')]\<rparr>)"
  by (simp add: load_to_sqlite_apply sqlite_open_ok_def dir_exists_def dirname_def initial_world_def)

subsection \<open>Properties of the loader\<close>

text \<open>C9: a successful load leaves the named table holding exactly the frame's columns
  and rows, whatever it held before, and changes no other table of any database.\<close>

theorem load_replaces:
  assumes "load_to_sqlite df db_path table_name w = (Inr u, w')"
  shows "w_dbs w' db_path table_name = Some (SqlTable (df_columns df) (df_rows df)) \<and>
         (\<forall>p t. (p, t) \<noteq> (db_path, table_name) \<longrightarrow> w_dbs w' p t = w_dbs w p t)"
  using load_to_sqlite_Inr_E [OF assms] by auto

theorem load_replaces_witness:
  "w_dbs (initial_world\<lparr>w_dbs := (\<lambda>_. Map.empty)(''etl_demo.db'' := [''weather_hourly'' \<mapsto> SqlTable weather_columns []]),
      w_log := [(INFO, LoadedRows 0 ''weather_hourly'' ''etl_demo.db'')]\<rparr>) ''etl_demo.db'' ''weather_hourly'' =
   Some (SqlTable weather_columns [])"
  using load_replaces [OF load_example] by simp

text \<open>C10: loading the same frame again changes no table: the second load leaves the
  databases exactly as the first left them (full replace, never append).\<close>

theorem load_idempotent:
  assumes "load_to_sqlite df db_path table_name w = (Inr u, w1)"
  shows "\<exists>w2. load_to_sqlite df db_path table_name w1 = (Inr (), w2) \<and> w_dbs w2 = w_dbs w1"
  using load_to_sqlite_Inr_E [OF assms] by (auto simp: load_to_sqlite_apply fun_eq_iff)

theorem load_idempotent_witness:
  "\<exists>w2. load_to_sqlite \<lparr>df_columns = weather_columns, df_rows = []\<rparr> ''etl_demo.db'' ''weather_hourly''
          (initial_world\<lparr>w_dbs := (\<lambda>_. Map.empty)(''etl_demo.db'' := [''weather_hourly'' \<mapsto> SqlTable weather_columns []]),
             w_log := [(INFO, LoadedRows 0 ''weather_hourly'' ''etl_demo.db'')]\<rparr>) = (Inr (), w2) \<and>
        w_dbs w2 = (\<lambda>_. Map.empty)(''etl_demo.db'' := [''weather_hourly'' \<mapsto> SqlTable weather_columns []])"
  using load_idempotent [OF load_example] by simp

text \<open>C31: when the database file cannot be opened the loader raises before touching any
  table or the log.\<close>

theorem load_open_failure:
  assumes "\<not> sqlite_open_ok w db_path"
  shows "load_to_sqlite df db_path table_name w = (Inl (DBError db_path), w)"
  using assms by (simp add: load_to_sqlite_apply)

theorem load_open_failure_witness:
  "load_to_sqlite \<lparr>df_columns = weather_columns, df_rows = []\<rparr> ''missing_dir/etl_demo.db'' ''weather_hourly''
     initial_world = (Inl (DBError ''missing_dir/etl_demo.db''), initial_world)"
  by (rule load_open_failure)
    (simp add: sqlite_open_ok_def dir_exists_def dirname_def initial_world_def)

end
