(* ===== verification/Eff_Logic.thy ===== *)
theory Eff_Logic
  imports World
begin

text \<open>
  Reasoning rules for the operations of the world model (\<open>'a eff\<close>): which part of the
  world an operation leaves alone (\<open>keeps\<close>, and \<open>keeps_on_failure\<close> when it raises),
  and which exceptions it may raise with what its value satisfies (\<open>raises_only\<close>, a
  total-correctness triple with an exceptional postcondition). Each rule follows the
  structure of \<open>ebind\<close>, \<open>ecatch\<close>, \<open>if\<close>, \<open>let\<close> and the primitives of \<open>World\<close>, so
  a property of a whole run is proved by applying the collections \<open>keeps_intros\<close> and
  \<open>raises_intros\<close> along its definition.
\<close>

subsection \<open>Frame conditions and exceptions\<close>

definition keeps :: "(world \<Rightarrow> 'b) \<Rightarrow> 'a eff \<Rightarrow> bool" where
  "keeps f m \<longleftrightarrow> (\<forall>w. f (snd (m w)) = f w)"

definition keeps_on_failure :: "(world \<Rightarrow> 'b) \<Rightarrow> 'a eff \<Rightarrow> bool" where
  "keeps_on_failure f m \<longleftrightarrow> (\<forall>w e w'. m w = (Inl e, w') \<longrightarrow> f w' = f w)"

definition never_fails :: "'a eff \<Rightarrow> bool" where
  "never_fails m \<longleftrightarrow> (\<forall>w. \<not> isl (fst (m w)))"

text \<open>Which exceptions an operation may raise and what its value satisfies: a total
  correctness triple with an exceptional postcondition.\<close>

definition raises_only :: "(error \<Rightarrow> bool) \<Rightarrow> ('a \<Rightarrow> bool) \<Rightarrow> 'a eff \<Rightarrow> bool" where
  "raises_only P Q m \<longleftrightarrow> (\<forall>w. case fst (m w) of Inl e \<Rightarrow> P e | Inr x \<Rightarrow> Q x)"

fun key_error :: "error \<Rightarrow> bool" where
  "key_error (KeyError ks) = True"
| "key_error _ = False"

abbreviation not_key_error :: "error \<Rightarrow> bool" where
  "not_key_error \<equiv> \<lambda>e. \<not> key_error e"

named_theorems keeps_intros "frame rules of the ETL operations"
named_theorems raises_intros "exception rules of the ETL operations"

subsection \<open>Frame rules\<close>

lemma keeps_ebind [keeps_intros]:
  assumes "keeps f m" and "\<And>x. keeps f (g x)"
  shows "keeps f (ebind m g)"
  unfolding keeps_def
proof
  fix w
  obtain r w1 where m: "m w = (r, w1)" by fastforce
  have "f w1 = f w" using assms(1) m unfolding keeps_def by (metis snd_conv)
  then show "f (snd (ebind m g w)) = f w"
    using assms(2) m unfolding keeps_def by (cases r) (simp_all add: ebind_def)
qed

lemma keeps_eret [keeps_intros]: "keeps f (eret x)"
  and keeps_eraise [keeps_intros]: "keeps f (eraise e)"
  and keeps_elift [keeps_intros]: "keeps f (elift r)"
  and keeps_ereads [keeps_intros]: "keeps f (ereads g)"
  by (simp_all add: keeps_def eret_def eraise_def elift_def ereads_def)

lemma keeps_if [keeps_intros]: "keeps f m1 \<Longrightarrow> keeps f m2 \<Longrightarrow> keeps f (if b then m1 else m2)"
  by simp

lemma keeps_case_prod [keeps_intros]: "(\<And>a b. keeps f (g a b)) \<Longrightarrow> keeps f (case_prod g x)"
  unfolding keeps_def by (simp split: prod.splits)

lemma keeps_Let [keeps_intros]: "(\<And>x. keeps f (g x)) \<Longrightarrow> keeps f (Let v g)"
  by simp

text \<open>The primitive effects keep every field they do not write.\<close>

lemma keeps_log [keeps_intros]: "(\<And>w x. f (w\<lparr>w_log := x\<rparr>) = f w) \<Longrightarrow> keeps f (log_msg l e)"
  and keeps_sleep [keeps_intros]: "(\<And>w x. f (w\<lparr>w_sleeps := x\<rparr>) = f w) \<Longrightarrow> keeps f (sleep n)"
  and keeps_makedirs [keeps_intros]: "(\<And>w x. f (w\<lparr>w_dirs := x\<rparr>) = f w) \<Longrightarrow> keeps f (makedirs p)"
  and keeps_write [keeps_intros]: "(\<And>w x. f (w\<lparr>w_files := x\<rparr>) = f w) \<Longrightarrow> keeps f (write_file p c)"
  and keeps_open_append [keeps_intros]: "(\<And>w x. f (w\<lparr>w_files := x\<rparr>) = f w) \<Longrightarrow> keeps f (open_append p)"
  by (simp_all add: keeps_def etl_simps makedirs_def write_file_def open_append_def)

lemma keeps_ecatch [keeps_intros]:
  assumes "keeps f m" and "\<And>e. keeps f (h e)"
  shows "keeps f (ecatch m h)"
  unfolding keeps_def
proof
  fix w
  obtain r w1 where m: "m w = (r, w1)" by fastforce
  have "f w1 = f w" using assms(1) m unfolding keeps_def by (metis snd_conv)
  then show "f (snd (ecatch m h w)) = f w"
    using assms(2) m unfolding keeps_def by (cases r) (simp_all add: ecatch_def)
qed

lemma keeps_on_failure_ebind:
  "keeps f m \<Longrightarrow> (\<And>x. keeps_on_failure f (g x)) \<Longrightarrow> keeps_on_failure f (ebind m g)"
  unfolding keeps_on_failure_def
proof (intro allI impI)
  fix w e w'
  assume k: "keeps f m" and g: "\<And>x. \<forall>w e w'. g x w = (Inl e, w') \<longrightarrow> f w' = f w"
    and run: "ebind m g w = (Inl e, w')"
  obtain r w1 where m: "m w = (r, w1)" by fastforce
  have w1: "f w1 = f w" using k m unfolding keeps_def by (metis snd_conv)
  show "f w' = f w"
  proof (cases r)
    case (Inl a)
    then show ?thesis using run m w1 by (simp add: ebind_def)
  next
    case (Inr x)
    then show ?thesis using run m w1 g [of x] by (simp add: ebind_def)
  qed
qed

lemma keeps_on_failure_ebind_last:
  "keeps_on_failure f m \<Longrightarrow> (\<And>x. never_fails (g x)) \<Longrightarrow> keeps_on_failure f (ebind m g)"
  by (auto simp: keeps_on_failure_def never_fails_def ebind_def split: prod.splits sum.splits)
     (metis isl_def fst_conv)

lemma keeps_on_failure_keeps: "keeps f m \<Longrightarrow> keeps_on_failure f m"
  by (auto simp: keeps_def keeps_on_failure_def) (metis snd_conv)

lemma keeps_on_failure_if:
  "keeps_on_failure f m1 \<Longrightarrow> keeps_on_failure f m2 \<Longrightarrow> keeps_on_failure f (if b then m1 else m2)"
  by simp

lemma keeps_on_failure_case_prod:
  "(\<And>a b. keeps_on_failure f (g a b)) \<Longrightarrow> keeps_on_failure f (case_prod g x)"
  unfolding keeps_on_failure_def by (simp split: prod.splits)

lemma never_fails_log: "never_fails (log_msg l e)"
  by (simp add: never_fails_def log_msg_def)

lemma keeps_on_failure_Let: "(\<And>x. keeps_on_failure f (g x)) \<Longrightarrow> keeps_on_failure f (Let v g)"
  by simp

lemma keeps_apply: "keeps f m \<Longrightarrow> m w = (r, w') \<Longrightarrow> f w' = f w"
  unfolding keeps_def by (metis snd_conv)

lemma raises_only_apply: "raises_only P Q m \<Longrightarrow> m w = (Inl e, w') \<Longrightarrow> P e"
  unfolding raises_only_def by (metis fst_conv sum.simps(5))

subsection \<open>Exception rules\<close>

lemma raises_only_ebind [raises_intros]:
  assumes "raises_only P Q m" and "\<And>x. Q x \<Longrightarrow> raises_only P R (g x)"
  shows "raises_only P R (ebind m g)"
  unfolding raises_only_def
proof
  fix w
  obtain r w1 where m: "m w = (r, w1)" by fastforce
  have "case r of Inl e \<Rightarrow> P e | Inr x \<Rightarrow> Q x"
    using assms(1) m unfolding raises_only_def by (metis fst_conv)
  then show "case fst (ebind m g w) of Inl e \<Rightarrow> P e | Inr x \<Rightarrow> R x"
    using assms(2) m unfolding raises_only_def by (cases r) (simp_all add: ebind_def)
qed

lemma raises_only_ecatch:
  assumes "raises_only P' Q m" and "\<And>e. P' e \<Longrightarrow> raises_only P Q (h e)"
  shows "raises_only P Q (ecatch m h)"
  unfolding raises_only_def
proof
  fix w
  obtain r w1 where m: "m w = (r, w1)" by fastforce
  have "case r of Inl e \<Rightarrow> P' e | Inr x \<Rightarrow> Q x"
    using assms(1) m unfolding raises_only_def by (metis fst_conv)
  then show "case fst (ecatch m h w) of Inl e \<Rightarrow> P e | Inr x \<Rightarrow> Q x"
    using assms(2) m unfolding raises_only_def by (cases r) (simp_all add: ecatch_def)
qed

lemma raises_only_eret [raises_intros]: "Q x \<Longrightarrow> raises_only P Q (eret x)"
  and raises_only_eraise [raises_intros]: "P e \<Longrightarrow> raises_only P Q (eraise e)"
  and raises_only_ereads [raises_intros]: "raises_only P (\<lambda>_. True) (ereads f)"
  and raises_only_elift:
    "(\<And>e. r = Inl e \<Longrightarrow> P e) \<Longrightarrow> (\<And>x. r = Inr x \<Longrightarrow> Q x) \<Longrightarrow> raises_only P Q (elift r)"
  by (auto simp: raises_only_def eret_def eraise_def ereads_def elift_def split: sum.splits)

lemma raises_only_if [raises_intros]:
  "(b \<Longrightarrow> raises_only P Q m1) \<Longrightarrow> (\<not> b \<Longrightarrow> raises_only P Q m2) \<Longrightarrow> raises_only P Q (if b then m1 else m2)"
  by simp

lemma raises_only_Let [raises_intros]: "raises_only P Q (g v) \<Longrightarrow> raises_only P Q (Let v g)"
  by simp

lemma raises_only_case_prod [raises_intros]:
  "(\<And>a b. x = (a, b) \<Longrightarrow> raises_only P Q (g a b)) \<Longrightarrow> raises_only P Q (case_prod g x)"
  by (cases x) simp

text \<open>The primitives raise only \<open>OSError\<close>, \<open>RequestException\<close> or nothing at all.\<close>

lemma raises_only_prims [raises_intros]:
  "raises_only not_key_error (\<lambda>_. True) (log_msg l ev)"
  "raises_only not_key_error (\<lambda>_. True) (sleep n)"
  "raises_only not_key_error (\<lambda>_. True) (makedirs p)"
  "raises_only not_key_error (\<lambda>_. True) (write_file p c)"
  "raises_only not_key_error (\<lambda>_. True) (open_append p)"
  by (simp_all add: raises_only_def etl_simps makedirs_def write_file_def open_append_def)

end
