(* ===== verification/Pipeline.thy ===== *)
theory Pipeline
  imports Quality Extract Sinks Load Eff_Logic
begin

text \<open>
  \<^verbatim>\<open>main\<close> (\<^verbatim>\<open>src/etl.py\<close>, lines 16--60): logger set-up, configuration from the
  environment (\<^verbatim>\<open>os.getenv\<close> with defaults, \<^verbatim>\<open>float\<close> for the coordinates), then
  extract, archive, transform, the required-columns check, the quality gate, the rejects
  file, the load and the completion line, in this order, each exception ending the run.
  \<^verbatim>\<open>load_dotenv()\<close> fills the environment from a \<^verbatim>\<open>.env\<close> file without overriding it;
  the world's environment is the one after that call (the file format is not modelled).
  The rules of \<open>Eff_Logic\<close> are instantiated here for the stages (\<open>keeps_stages\<close>,
  \<open>raises_only_stages\<close>) and applied along the definition of \<open>main\<close>: a failed run keeps
  the databases, and no run raises \<^verbatim>\<open>KeyError\<close>. A successful run is taken apart stage by
  stage (\<open>main_Inr_E\<close>) to state what it leaves on disk. \<^verbatim>\<open>float\<close> is the model of
  \<open>Py_Float\<close>.
\<close>

subsection \<open>Configuration\<close>

definition getenv :: "string \<Rightarrow> string \<Rightarrow> world \<Rightarrow> string" where
  "getenv k dflt w = (case w_env w k of Some v \<Rightarrow> v | None \<Rightarrow> dflt)"

definition etl_params :: "real \<Rightarrow> real \<Rightarrow> string \<Rightarrow> jval" where
  "etl_params lat lon tz =
     JObj [(''latitude'', JFloat lat), (''longitude'', JFloat lon),
           (''hourly'', JStr ''temperature_2m,relative_humidity_2m''), (''timezone'', JStr tz)]"

definition missing_required :: "frame \<Rightarrow> string list" where
  "missing_required df = [c \<leftarrow> required_columns WEATHER_HOURLY_SCHEMA. c \<notin> set (df_columns df)]"

subsection \<open>The run\<close>

definition main :: "unit eff" where
  "main =
     ebind (setup_logger ''outputs/etl.log'') (\<lambda>_.
     ebind (ereads (getenv ''API_BASE_URL'' ''https://api.open-meteo.com/v1/forecast'')) (\<lambda>base_url.
     ebind (ereads (getenv ''LAT'' ''3.1390'')) (\<lambda>lat_s. ebind (elift (py_float lat_s)) (\<lambda>lat.
     ebind (ereads (getenv ''LON'' ''101.6869'')) (\<lambda>lon_s. ebind (elift (py_float lon_s)) (\<lambda>lon.
     ebind (ereads (getenv ''SQLITE_DB'' ''etl_demo.db'')) (\<lambda>db_path.
     ebind (ereads (getenv ''TIMEZONE'' ''Asia/Kuala_Lumpur'')) (\<lambda>tz.
     ebind (extract_weather_api base_url (etl_params lat lon tz) 30 3) (\<lambda>raw.
     ebind (archive_raw_json raw ''data/raw'' ''weather_raw'') (\<lambda>_.
     ebind (transform_weather_hourly raw) (\<lambda>df.
       let missing = missing_required df in
       if missing \<noteq> [] then eraise (KeyError missing) else
       ebind (quality_checks df) (\<lambda>(clean, rejected).
       ebind (save_rejected_csv rejected ''outputs/rejected_rows.csv'') (\<lambda>_.
       ebind (load_to_sqlite clean db_path (table_name WEATHER_HOURLY_SCHEMA)) (\<lambda>_.
       log_msg INFO Completed))))))))))))))"

subsection \<open>Example worlds\<close>

text \<open>The world of the scenario of the specification (section 8): the network answers with
  its payload, nothing is on disk, the environment is empty (every default applies). In
  the second world \<^verbatim>\<open>SQLITE_DB\<close> names a database in a directory that does not exist, so
  the run fails at the load, after every other stage has succeeded; in the third
  \<^verbatim>\<open>LAT\<close> is not a number.\<close>

definition scenario_world :: world where
  "scenario_world = initial_world\<lparr>w_net := (\<lambda>_. Response 200 (Some scenario_payload))\<rparr>"

definition bad_latitude_world :: world where
  "bad_latitude_world = initial_world\<lparr>w_env := [''LAT'' \<mapsto> ''north'']\<rparr>"

definition load_failure_world :: world where
  "load_failure_world = scenario_world\<lparr>w_env := [''SQLITE_DB'' \<mapsto> ''missing/etl.db'']\<rparr>"

subsection \<open>Stage rules\<close>

lemma keeps_http [keeps_intros]: "(\<And>w x. f (w\<lparr>w_requests := x\<rparr>) = f w) \<Longrightarrow> keeps f (http_get u ps t)"
  by (simp add: keeps_def http_get_def)

lemma keeps_extract_attempts [keeps_intros]:
  "(\<And>w x. f (w\<lparr>w_log := x\<rparr>) = f w) \<Longrightarrow> (\<And>w x. f (w\<lparr>w_sleeps := x\<rparr>) = f w) \<Longrightarrow>
   (\<And>w x. f (w\<lparr>w_requests := x\<rparr>) = f w) \<Longrightarrow> keeps f (extract_attempts b p t r as)"
  by (induction as) (simp_all add: extract_attempts.simps(2) keeps_intros)

text \<open>Every stage before the load keeps the databases, the clock and the environment;
  the transformer and the quality gate also keep the files.\<close>

lemma keeps_stages [keeps_intros]:
  "keeps w_dbs (extract_weather_api b ps t r)" "keeps w_now (extract_weather_api b ps t r)"
  "keeps w_env (extract_weather_api b ps t r)" "keeps w_files (extract_weather_api b ps t r)"
  "keeps w_dbs (setup_logger lp)" "keeps w_now (setup_logger lp)" "keeps w_env (setup_logger lp)"
  "keeps w_dbs (archive_raw_json d rd pf)" "keeps w_now (archive_raw_json d rd pf)"
  "keeps w_env (archive_raw_json d rd pf)"
  "keeps w_dbs (transform_weather_hourly d)" "keeps w_files (transform_weather_hourly d)"
  "keeps w_dbs (quality_checks df)" "keeps w_files (quality_checks df)"
  "keeps w_dbs (save_rejected_csv df q)"
  unfolding extract_weather_api_def setup_logger_def archive_raw_json_def transform_weather_hourly_def
    quality_checks_def save_rejected_csv_def
  by (intro keeps_intros; simp)+

lemma keeps_load [keeps_intros]:
  "(\<And>w x. f (w\<lparr>w_dbs := x\<rparr>) = f w) \<Longrightarrow> (\<And>w x. f (w\<lparr>w_log := x\<rparr>) = f w) \<Longrightarrow>
   keeps f (load_to_sqlite df p t)"
  by (simp add: keeps_def load_to_sqlite_apply)

text \<open>A run never changes the clock or the environment.\<close>

lemma keeps_main: "keeps w_now main" "keeps w_env main"
  unfolding main_def setup_logger_def extract_weather_api_def archive_raw_json_def
    transform_weather_hourly_def quality_checks_def save_rejected_csv_def
  by (intro keeps_intros; simp)+

lemma keeps_on_failure_dbs_load: "keeps_on_failure w_dbs (load_to_sqlite df p t)"
  by (simp add: keeps_on_failure_def load_to_sqlite_apply)

lemma response_result_not_key_error: "response_result out = Inl e \<Longrightarrow> \<not> key_error e"
  by (cases out) (auto split: if_splits option.splits)

lemma raises_only_load [raises_intros]: "raises_only not_key_error (\<lambda>_. True) (load_to_sqlite df db tn)"
  by (simp add: raises_only_def load_to_sqlite_apply)

lemma raises_only_lifted [raises_intros]:
  "raises_only not_key_error (\<lambda>_. True) (elift (py_get v k d))"
  "raises_only not_key_error (\<lambda>_. True) (elift (dataframe3 a b c))"
  "raises_only not_key_error (\<lambda>_. True) (elift (py_float str))"
  by (rule raises_only_elift; cases v; auto simp: dataframe3_def py_float_def Let_def
      split: if_splits option.splits prod.splits)+

lemma raises_only_http [raises_intros]: "raises_only not_key_error (\<lambda>_. True) (http_get u ps t)"
  by (auto simp: raises_only_def http_get_def dest: response_result_not_key_error split: sum.splits)


lemma raises_only_extract_attempts:
  "raises_only not_key_error (\<lambda>_. True) (extract_attempts b p t r as)"
proof (induction as)
  case Nil
  then show ?case by (simp add: raises_only_eret)
next
  case (Cons a as)
  show ?case
    unfolding extract_attempts.simps(2)
    by (rule raises_only_ecatch [where P' = not_key_error])
      (rule raises_intros Cons.IH | simp)+
qed


text \<open>Each stage of \<^verbatim>\<open>main\<close> raises no \<^verbatim>\<open>KeyError\<close>; the transformer's frame always
  has the schema's columns, and the quality gate raises only when one is missing.\<close>

lemma raises_only_stages [raises_intros]:
  "raises_only not_key_error (\<lambda>_. True) (setup_logger lp)"
  "raises_only not_key_error (\<lambda>_. True) (extract_weather_api b ps t r)"
  "raises_only not_key_error (\<lambda>_. True) (archive_raw_json d rd pf)"
  "raises_only not_key_error (\<lambda>_. True) (save_rejected_csv df q)"
  unfolding setup_logger_def extract_weather_api_def archive_raw_json_def save_rejected_csv_def
  by (rule raises_intros raises_only_extract_attempts | simp)+


lemma raises_only_transform [raises_intros]:
  "raises_only not_key_error (\<lambda>df. df_columns df = weather_columns) (transform_weather_hourly d)"
  unfolding transform_weather_hourly_def
  by (rule raises_intros | simp)+

lemma raises_only_quality [raises_intros]:
  "df_columns df = weather_columns \<Longrightarrow> raises_only not_key_error (\<lambda>_. True) (quality_checks df)"
  unfolding quality_checks_def
  by (rule raises_intros | simp add: weather_columns_def)+

subsection \<open>A successful run, stage by stage\<close>

lemma main_Inr_E:
  assumes "main w = (Inr u, w')"
  obtains w1 lat lon raw w2 path w3 df w4 clean rej w5 w6 w7 where
    "setup_logger ''outputs/etl.log'' w = (Inr (), w1)"
    "py_float (getenv ''LAT'' ''3.1390'' w1) = Inr lat"
    "py_float (getenv ''LON'' ''101.6869'' w1) = Inr lon"
    "extract_weather_api (getenv ''API_BASE_URL'' ''https://api.open-meteo.com/v1/forecast'' w1)
       (etl_params lat lon (getenv ''TIMEZONE'' ''Asia/Kuala_Lumpur'' w1)) 30 3 w1 = (Inr raw, w2)"
    "archive_raw_json raw ''data/raw'' ''weather_raw'' w2 = (Inr path, w3)"
    "transform_weather_hourly raw w3 = (Inr df, w4)"
    "missing_required df = []"
    "quality_checks df w4 = (Inr (clean, rej), w5)"
    "save_rejected_csv rej ''outputs/rejected_rows.csv'' w5 = (Inr (), w6)"
    "load_to_sqlite clean (getenv ''SQLITE_DB'' ''etl_demo.db'' w1) (table_name WEATHER_HOURLY_SCHEMA) w6 = (Inr (), w7)"
    "w' = w7\<lparr>w_log := w_log w7 @ [(INFO, Completed)]\<rparr>"
  using assms
  by (auto simp: main_def ebind_def ereads_def elift_def eraise_def log_msg_def Let_def
      split: prod.splits sum.splits if_splits)

lemma archive_path_not_rejects: "archive_path ''data/raw'' pf n \<noteq> ''outputs/rejected_rows.csv''"
  by (simp add: archive_path_def path_join_def)

lemma keeps_on_failure_dbs_main: "keeps_on_failure w_dbs main"
proof -
  have tail: "\<And>c d t. keeps_on_failure w_dbs (ebind (load_to_sqlite c d t) (\<lambda>_. log_msg INFO Completed))"
    by (rule keeps_on_failure_ebind_last [OF keeps_on_failure_dbs_load never_fails_log])
  show ?thesis
    unfolding main_def
    by (rule tail | rule keeps_on_failure_ebind | rule keeps_on_failure_Let | rule keeps_on_failure_if
        | rule keeps_on_failure_case_prod | rule keeps_on_failure_keeps | rule keeps_intros)+
qed

lemma raises_only_main: "raises_only not_key_error (\<lambda>_. True) main"
  unfolding main_def
  by (rule raises_intros
      | simp add: missing_required_def WEATHER_HOURLY_SCHEMA_def weather_columns_def)+

subsection \<open>Evaluation on the example worlds\<close>

lemma transform_scenario_any:
  "transform_weather_hourly scenario_payload w =
     (Inr scenario_frame, w\<lparr>w_log := w_log w @ [(INFO, Transformed 3 weather_columns)]\<rparr>)"
  by (simp add: transform_weather_hourly_def scenario_payload_def etl_simps dataframe3_arrays
      coerce_rows_scenario[simplified] scenario_frame_def)

lemmas main_run_simps = main_def etl_simps scenario_world_def initial_world_def getenv_def
  py_float_examples(1,2) extract_weather_api_first_ok setup_logger_def makedirs_def open_append_def dirname_def
  dir_chain_def Let_def archive_raw_json_def archive_path_example write_file_def dir_exists_def
  transform_scenario_any quality_checks_apply row_ok_def drop_duplicates_def scenario_frame_def
  weather_columns_def save_rejected_csv_def load_to_sqlite_apply sqlite_open_ok_def
  WEATHER_HOURLY_SCHEMA_def missing_required_def

lemma main_scenario_run: "main scenario_world = (Inr (), snd (main scenario_world))"
proof -
  have "fst (main scenario_world) = Inr ()" by (simp add: main_run_simps)
  then show ?thesis by (metis prod.collapse)
qed

lemma main_load_failure_run:
  "main load_failure_world = (Inl (DBError ''missing/etl.db''), snd (main load_failure_world))"
proof -
  have "fst (main load_failure_world) = Inl (DBError ''missing/etl.db'')"
    by (simp add: main_run_simps load_failure_world_def)
  then show ?thesis by (metis prod.collapse)
qed

subsection \<open>Properties of the run\<close>

text \<open>C5: a run that raises, at whatever stage, leaves every database as it was: there is
  no partial commit (specification, section 4.8).\<close>

theorem main_failure_keeps_dbs:
  assumes "main w = (Inl e, w')"
  shows "w_dbs w' = w_dbs w"
  using keeps_on_failure_dbs_main assms unfolding keeps_on_failure_def by blast

theorem main_failure_keeps_dbs_witness:
  "w_dbs (snd (main load_failure_world)) = w_dbs load_failure_world"
  by (rule main_failure_keeps_dbs [OF main_load_failure_run])

lemma main_success_effect:
  assumes "main w = (Inr u, w')"
  shows "\<exists>raw df. read_json w' (archive_path ''data/raw'' ''weather_raw'' (w_now w)) = Some raw \<and>
     fst (transform_weather_hourly raw w) = Inr df \<and>
     w_dbs w' = (w_dbs w)(getenv ''SQLITE_DB'' ''etl_demo.db'' w :=
       (w_dbs w (getenv ''SQLITE_DB'' ''etl_demo.db'' w))(''weather_hourly'' \<mapsto>
          SqlTable weather_columns (drop_duplicates (filter row_ok (df_rows df))))) \<and>
     w_files w' ''outputs/rejected_rows.csv'' =
       Some (CsvFile weather_columns (filter (\<lambda>r. \<not> row_ok r) (df_rows df)))"
proof -
  obtain w1 lat lon raw w2 path w3 df w4 clean rej w5 w6 w7 where
    s: "setup_logger ''outputs/etl.log'' w = (Inr (), w1)"
    and e: "extract_weather_api (getenv ''API_BASE_URL'' ''https://api.open-meteo.com/v1/forecast'' w1)
       (etl_params lat lon (getenv ''TIMEZONE'' ''Asia/Kuala_Lumpur'' w1)) 30 3 w1 = (Inr raw, w2)"
    and a: "archive_raw_json raw ''data/raw'' ''weather_raw'' w2 = (Inr path, w3)"
    and t: "transform_weather_hourly raw w3 = (Inr df, w4)"
    and q: "quality_checks df w4 = (Inr (clean, rej), w5)"
    and r: "save_rejected_csv rej ''outputs/rejected_rows.csv'' w5 = (Inr (), w6)"
    and l: "load_to_sqlite clean (getenv ''SQLITE_DB'' ''etl_demo.db'' w1) (table_name WEATHER_HOURLY_SCHEMA) w6 = (Inr (), w7)"
    and fin: "w' = w7\<lparr>w_log := w_log w7 @ [(INFO, Completed)]\<rparr>"
    using assms by (rule main_Inr_E)
  have env: "getenv k d w1 = getenv k d w" for k d
    using keeps_apply [OF keeps_stages(7) s] by (simp add: getenv_def)
  have now: "w_now w2 = w_now w"
    using keeps_apply [OF keeps_stages(2) e] keeps_apply [OF keeps_stages(6) s] by simp
  have cols: "df_columns df = weather_columns"
    using t by (rule transform_weather_hourly_Inr_E) simp
  have dbs6: "w_dbs w6 = w_dbs w"
    using keeps_apply [OF keeps_stages(5) s] keeps_apply [OF keeps_stages(1) e]
      keeps_apply [OF keeps_stages(8) a] keeps_apply [OF keeps_stages(11) t]
      keeps_apply [OF keeps_stages(13) q] keeps_apply [OF keeps_stages(15) r] by simp
  have files5: "w_files w5 = w_files w3"
    using keeps_apply [OF keeps_stages(12) t] keeps_apply [OF keeps_stages(14) q] by simp
  have arch: "path = archive_path ''data/raw'' ''weather_raw'' (w_now w)"
    "w_files w3 path = Some (JsonFile raw)"
    using archive_raw_json_Inr_E [OF a] now by auto
  from q obtain "df_rows clean = drop_duplicates (filter row_ok (df_rows df))"
    "df_rows rej = filter (\<lambda>r. \<not> row_ok r) (df_rows df)"
    "df_columns clean = df_columns df" "df_columns rej = df_columns df"
    by (rule quality_checks_Inr_E)
  moreover have "fst (transform_weather_hourly raw w) = Inr df"
    using t transform_weather_hourly_fst [of raw w3 w] by simp
  ultimately show ?thesis
    using save_rejected_csv_Inr_E [OF r] load_to_sqlite_Inr_E [OF l] fin arch cols files5 dbs6
      archive_path_not_rejects [of "''weather_raw''" "w_now w"]
    by (auto simp: env read_json_def WEATHER_HOURLY_SCHEMA_def)
qed

text \<open>C4: after a successful run the archive named by the clock at the start holds a payload
  \<open>raw\<close>; the database \<^verbatim>\<open>SQLITE_DB\<close> holds in \<^verbatim>\<open>weather_hourly\<close> exactly the valid rows of
  \<open>raw\<close>'s frame, first occurrence per time; and the rejects file holds exactly the invalid
  rows.\<close>

theorem main_success_outputs:
  assumes "main w = (Inr u, w')"
  shows "\<exists>raw df. read_json w' (archive_path ''data/raw'' ''weather_raw'' (w_now w)) = Some raw \<and>
     fst (transform_weather_hourly raw w) = Inr df \<and>
     w_dbs w' (getenv ''SQLITE_DB'' ''etl_demo.db'' w) ''weather_hourly'' =
       Some (SqlTable weather_columns (drop_duplicates (filter row_ok (df_rows df)))) \<and>
     w_files w' ''outputs/rejected_rows.csv'' =
       Some (CsvFile weather_columns (filter (\<lambda>r. \<not> row_ok r) (df_rows df)))"
  using main_success_effect [OF assms] by auto

theorem main_success_outputs_witness:
  "\<exists>raw df. read_json (snd (main scenario_world)) (archive_path ''data/raw'' ''weather_raw'' (w_now scenario_world)) = Some raw \<and>
     fst (transform_weather_hourly raw scenario_world) = Inr df \<and>
     w_dbs (snd (main scenario_world)) (getenv ''SQLITE_DB'' ''etl_demo.db'' scenario_world) ''weather_hourly'' =
       Some (SqlTable weather_columns (drop_duplicates (filter row_ok (df_rows df)))) \<and>
     w_files (snd (main scenario_world)) ''outputs/rejected_rows.csv'' =
       Some (CsvFile weather_columns (filter (\<lambda>r. \<not> row_ok r) (df_rows df)))"
  by (rule main_success_outputs [OF main_scenario_run])

text \<open>C15: no run raises \<^verbatim>\<open>KeyError\<close>: the transformer always produces the schema's
  columns, so the required-columns check of \<^verbatim>\<open>main\<close> (and the column checks of
  \<^verbatim>\<open>quality_checks\<close>) never fire.\<close>

theorem main_never_key_error: "fst (main w) \<noteq> Inl (KeyError ks)"
  using raises_only_main unfolding raises_only_def by (metis key_error.simps(1) sum.simps(5))

text \<open>C34: a \<^verbatim>\<open>LAT\<close> that \<^verbatim>\<open>float\<close> rejects ends the run with that
  exception (for a malformed string, \<^verbatim>\<open>ValueError\<close> naming the string's \<^verbatim>\<open>repr\<close>) right after the logger set-up: no request is sent, nothing is archived
  or written and no line is logged.\<close>

theorem main_bad_latitude:
  assumes "setup_logger ''outputs/etl.log'' w = (Inr (), w1)"
    and "py_float (getenv ''LAT'' ''3.1390'' w) = Inl e"
  shows "main w = (Inl e, w1)"
proof -
  have "getenv k d w1 = getenv k d w" for k d
    using keeps_apply [OF keeps_stages(7) assms(1)] by (simp add: getenv_def)
  then show ?thesis using assms by (simp add: main_def ebind_def ereads_def elift_def)
qed

theorem main_bad_latitude_witness:
  "main bad_latitude_world =
     (Inl (ValueError (''could not convert string to float: '' @ CHR 0x27 # ''north'' @ [CHR 0x27])),
      snd (setup_logger ''outputs/etl.log'' bad_latitude_world))"
proof -
  have s: "setup_logger ''outputs/etl.log'' bad_latitude_world =
             (Inr (), snd (setup_logger ''outputs/etl.log'' bad_latitude_world))"
    by (simp add: setup_logger_def etl_simps makedirs_def open_append_def dir_chain_def dirname_def
        dir_exists_def initial_world_def bad_latitude_world_def)
  have f: "py_float (getenv ''LAT'' ''3.1390'' bad_latitude_world) =
             Inl (ValueError (''could not convert string to float: '' @ CHR 0x27 # ''north'' @ [CHR 0x27]))"
    by (simp add: getenv_def bad_latitude_world_def py_float_simps py_repr_def repr_char_def Let_def)
  show ?thesis by (rule main_bad_latitude [OF s f])
qed

text \<open>C11: re-running the pipeline on the same payload leaves every database as the first
  run left it: the table is replaced by the same rows, never appended to (specification,
  sections 4.7 and 8).\<close>

theorem main_rerun_same_dbs:
  assumes "main w = (Inr u, w1)" and "main w1 = (Inr u', w2)"
    and "read_json w2 (archive_path ''data/raw'' ''weather_raw'' (w_now w)) =
         read_json w1 (archive_path ''data/raw'' ''weather_raw'' (w_now w))"
  shows "w_dbs w2 = w_dbs w1"
proof -
  have now: "w_now w1 = w_now w" and env: "getenv k d w1 = getenv k d w" for k d
    using keeps_apply [OF keeps_main(1) assms(1)] keeps_apply [OF keeps_main(2) assms(1)]
    by (simp_all add: getenv_def)
  obtain raw1 df1 where r1: "read_json w1 (archive_path ''data/raw'' ''weather_raw'' (w_now w)) = Some raw1"
    and t1: "fst (transform_weather_hourly raw1 w) = Inr df1"
    and d1: "w_dbs w1 = (w_dbs w)(getenv ''SQLITE_DB'' ''etl_demo.db'' w :=
       (w_dbs w (getenv ''SQLITE_DB'' ''etl_demo.db'' w))(''weather_hourly'' \<mapsto>
          SqlTable weather_columns (drop_duplicates (filter row_ok (df_rows df1)))))"
    using main_success_effect [OF assms(1)] by blast
  obtain raw2 df2 where r2: "read_json w2 (archive_path ''data/raw'' ''weather_raw'' (w_now w1)) = Some raw2"
    and t2: "fst (transform_weather_hourly raw2 w1) = Inr df2"
    and d2: "w_dbs w2 = (w_dbs w1)(getenv ''SQLITE_DB'' ''etl_demo.db'' w1 :=
       (w_dbs w1 (getenv ''SQLITE_DB'' ''etl_demo.db'' w1))(''weather_hourly'' \<mapsto>
          SqlTable weather_columns (drop_duplicates (filter row_ok (df_rows df2)))))"
    using main_success_effect [OF assms(2)] by blast
  have "raw2 = raw1" using r1 r2 assms(3) now by simp
  then have "df2 = df1" using t1 t2 transform_weather_hourly_fst [of raw1 w1 w] by simp
  then show ?thesis using d1 d2 env by (simp add: fun_eq_iff)
qed

theorem main_rerun_same_dbs_witness:
  "w_dbs (snd (main (snd (main scenario_world)))) = w_dbs (snd (main scenario_world))"
proof -
  have run2: "main (snd (main scenario_world)) = (Inr (), snd (main (snd (main scenario_world))))"
  proof -
    have "fst (main (snd (main scenario_world))) = Inr ()" by (simp add: main_run_simps)
    then show ?thesis by (metis prod.collapse)
  qed
  have "read_json (snd (main (snd (main scenario_world)))) (archive_path ''data/raw'' ''weather_raw'' (w_now scenario_world)) =
        read_json (snd (main scenario_world)) (archive_path ''data/raw'' ''weather_raw'' (w_now scenario_world))"
    by (simp add: main_run_simps read_json_def)
  then show ?thesis by (rule main_rerun_same_dbs [OF main_scenario_run run2])
qed

end
