(* ===== verification/Orchestrator.thy ===== *)
theory Orchestrator
  imports Pipeline
begin

text \<open>
  The orchestrator as the state machine of the specification (section 4.8):
  \<open>Start \<rightarrow> Configured \<rightarrow> Extracted \<rightarrow> Archived \<rightarrow> Transformed \<rightarrow> SchemaValidated \<rightarrow>
  QualityChecked \<rightarrow> RejectsSaved \<rightarrow> Loaded \<rightarrow> Done\<close>, with \<open>Failed\<close> reached from any step that
  raises. \<open>Configured\<close> is the logger and configuration prologue of \<^verbatim>\<open>main\<close>, which the
  specification leaves outside its machine. A stage carries the values the later stages
  of \<^verbatim>\<open>main\<close> use. One step runs the action of its stage on the world; \<open>main\<close> is shown to
  be this machine run from \<open>Start\<close> to its final state.
\<close>

record config =
  cfg_base_url :: string
  cfg_lat :: real
  cfg_lon :: real
  cfg_db_path :: string
  cfg_tz :: string

datatype stage =
    Start
  | Configured config
  | Extracted config jval
  | Archived config jval
  | Transformed config frame
  | SchemaValidated config frame
  | QualityChecked config frame frame
  | RejectsSaved config frame
  | Loaded
  | Done
  | Failed error

definition configure :: "config eff" where
  "configure =
     ebind (setup_logger ''outputs/etl.log'') (\<lambda>_.
     ebind (ereads (getenv ''API_BASE_URL'' ''https://api.open-meteo.com/v1/forecast'')) (\<lambda>base_url.
     ebind (ereads (getenv ''LAT'' ''3.1390'')) (\<lambda>lat_s. ebind (elift (py_float lat_s)) (\<lambda>lat.
     ebind (ereads (getenv ''LON'' ''101.6869'')) (\<lambda>lon_s. ebind (elift (py_float lon_s)) (\<lambda>lon.
     ebind (ereads (getenv ''SQLITE_DB'' ''etl_demo.db'')) (\<lambda>db_path.
     ebind (ereads (getenv ''TIMEZONE'' ''Asia/Kuala_Lumpur'')) (\<lambda>tz.
       eret \<lparr>cfg_base_url = base_url, cfg_lat = lat, cfg_lon = lon, cfg_db_path = db_path, cfg_tz = tz\<rparr>))))))))"

fun stage_action :: "stage \<Rightarrow> stage eff" where
  "stage_action Start = ebind configure (\<lambda>c. eret (Configured c))"
| "stage_action (Configured c) =
     ebind (extract_weather_api (cfg_base_url c) (etl_params (cfg_lat c) (cfg_lon c) (cfg_tz c)) 30 3)
       (\<lambda>raw. eret (Extracted c raw))"
| "stage_action (Extracted c raw) =
     ebind (archive_raw_json raw ''data/raw'' ''weather_raw'') (\<lambda>_. eret (Archived c raw))"
| "stage_action (Archived c raw) = ebind (transform_weather_hourly raw) (\<lambda>df. eret (Transformed c df))"
| "stage_action (Transformed c df) =
     (let missing = missing_required df in
      if missing \<noteq> [] then eraise (KeyError missing) else eret (SchemaValidated c df))"
| "stage_action (SchemaValidated c df) =
     ebind (quality_checks df) (\<lambda>(clean, rejected). eret (QualityChecked c clean rejected))"
| "stage_action (QualityChecked c clean rejected) =
     ebind (save_rejected_csv rejected ''outputs/rejected_rows.csv'') (\<lambda>_. eret (RejectsSaved c clean))"
| "stage_action (RejectsSaved c clean) =
     ebind (load_to_sqlite clean (cfg_db_path c) (table_name WEATHER_HOURLY_SCHEMA)) (\<lambda>_. eret Loaded)"
| "stage_action Loaded = ebind (log_msg INFO Completed) (\<lambda>_. eret Done)"
| "stage_action Done = eret Done"
| "stage_action (Failed e) = eret (Failed e)"

fun final :: "stage \<Rightarrow> bool" where
  "final Done = True"
| "final (Failed e) = True"
| "final _ = False"

fun stage_rank :: "stage \<Rightarrow> nat" where
  "stage_rank Start = 9"
| "stage_rank (Configured c) = 8"
| "stage_rank (Extracted c raw) = 7"
| "stage_rank (Archived c raw) = 6"
| "stage_rank (Transformed c df) = 5"
| "stage_rank (SchemaValidated c df) = 4"
| "stage_rank (QualityChecked c cl rj) = 3"
| "stage_rank (RejectsSaved c cl) = 2"
| "stage_rank Loaded = 1"
| "stage_rank Done = 0"
| "stage_rank (Failed e) = 0"

inductive stage_step :: "stage \<times> world \<Rightarrow> stage \<times> world \<Rightarrow> bool" where
  advance: "\<not> final s \<Longrightarrow> stage_action s w = (Inr s', w') \<Longrightarrow> stage_step (s, w) (s', w')"
| fail: "\<not> final s \<Longrightarrow> stage_action s w = (Inl e, w') \<Longrightarrow> stage_step (s, w) (Failed e, w')"

text \<open>The machine run with enough fuel for every path (the rank of the start state).\<close>

fun drive :: "nat \<Rightarrow> stage \<Rightarrow> unit eff" where
  "drive n Done = eret ()"
| "drive n (Failed e) = eraise e"
| "drive 0 s = eraise (Unmodelled ''fuel'')"
| "drive (Suc n) s = ebind (stage_action s) (drive n)"

text \<open>The machine run to its final state without fuel: each recursive call is on the
  next stage, whose rank is one less.\<close>

function run_machine :: "stage \<Rightarrow> world \<Rightarrow> stage \<times> world" where
  "run_machine s w =
     (if final s then (s, w)
      else case stage_action s w of
             (Inl e, w') \<Rightarrow> (Failed e, w')
           | (Inr s', w') \<Rightarrow> run_machine s' w')"
  by pat_completeness auto
termination
  apply (relation "measure (\<lambda>(s, w). stage_rank s)")
   apply simp
  apply clarsimp
  apply (drule sym)
  apply (case_tac s)
            apply (auto simp: ebind_def eret_def eraise_def Let_def split: prod.splits sum.splits if_splits)
  done

text \<open>What a final state says about the run: its value or its exception.\<close>

fun outcome :: "stage \<Rightarrow> error + unit" where
  "outcome Done = Inr ()"
| "outcome (Failed e) = Inl e"
| "outcome _ = Inl (Unmodelled ''not a final state'')"

text \<open>The well-formedness of a state: each frame it carries has the schema's columns, and
  a failure is never the required-columns \<^verbatim>\<open>KeyError\<close>.\<close>

fun stage_ok :: "stage \<Rightarrow> bool" where
  "stage_ok (Transformed c df) \<longleftrightarrow> df_columns df = weather_columns"
| "stage_ok (SchemaValidated c df) \<longleftrightarrow> df_columns df = weather_columns"
| "stage_ok (QualityChecked c cl rj) \<longleftrightarrow> df_columns cl = weather_columns \<and> df_columns rj = weather_columns"
| "stage_ok (RejectsSaved c cl) \<longleftrightarrow> df_columns cl = weather_columns"
| "stage_ok (Failed e) \<longleftrightarrow> \<not> key_error e"
| "stage_ok _ \<longleftrightarrow> True"

text \<open>The states after the raw payload has been archived.\<close>

fun post_archive :: "stage \<Rightarrow> bool" where
  "post_archive Start = False"
| "post_archive (Configured c) = False"
| "post_archive (Extracted c raw) = False"
| "post_archive _ = True"

inductive_cases stage_stepE: "stage_step (s, w) c"

lemma ebind_if: "ebind (if b then m1 else m2) g = (if b then ebind m1 g else ebind m2 g)"
  by simp

lemma ebind_case_prod: "ebind m (\<lambda>x. ebind (case x of (a, b) \<Rightarrow> f a b) g) = ebind m (\<lambda>(a, b). ebind (f a b) g)"
  by (simp add: split_def)

lemma ebind_unit: "ebind m (\<lambda>_. eret ()) = m"
  by (simp add: ebind_def eret_def fun_eq_iff split: prod.splits sum.splits)

lemma main_drive: "main = drive 9 Start"
  by (simp add: main_def configure_def ebind_assoc numeral_eq_Suc Let_def ebind_if ebind_case_prod ebind_unit
      ebind_eraise cong: if_cong)

subsection \<open>One step\<close>

lemma final_no_step: "stage_step (s, w) c \<Longrightarrow> \<not> final s"
  by (erule stage_stepE) simp_all

lemma stage_step_deterministic: "stage_step c c1 \<Longrightarrow> stage_step c c2 \<Longrightarrow> c1 = c2"
  by (induction rule: stage_step.induct) (auto elim: stage_stepE)

lemma stage_step_progress:
  "\<not> final s \<Longrightarrow> \<exists>c. stage_step (s, w) c"
  by (cases "stage_action s w" rule: prod.exhaust, rename_tac r w', case_tac r)
    (auto intro: stage_step.intros)

lemma stage_action_rank:
  assumes "\<not> final s" and "stage_action s w = (Inr s', w')"
  shows "stage_rank s' + 1 = stage_rank s"
  using assms
  by (cases s) (auto simp: ebind_def eret_def eraise_def Let_def split: prod.splits sum.splits if_splits)

lemma drive_Suc: "\<not> final s \<Longrightarrow> drive (Suc n) s = ebind (stage_action s) (drive n)"
  by (cases s) simp_all

lemma final_rank: "final s \<longleftrightarrow> stage_rank s = 0"
  by (cases s) simp_all

subsection \<open>Runs of the machine\<close>

lemma run_machine_reaches:
  "final (fst (run_machine s w)) \<and> stage_step\<^sup>*\<^sup>* (s, w) (run_machine s w)"
proof (induction s w rule: run_machine.induct)
  case (1 s w)
  show ?case
  proof (cases "final s")
    case True
    then show ?thesis by simp
  next
    case nf: False
    obtain r w1 where act: "stage_action s w = (r, w1)" by fastforce
    show ?thesis
    proof (cases r)
      case (Inl e)
      then have "stage_step (s, w) (Failed e, w1)" using nf act by (blast intro: stage_step.fail)
      then show ?thesis using nf act Inl by simp
    next
      case (Inr s')
      then have "stage_step (s, w) (s', w1)" using nf act by (blast intro: stage_step.advance)
      then show ?thesis using "1" nf act Inr by (auto intro: converse_rtranclp_into_rtranclp)
    qed
  qed
qed

lemma drive_run_machine:
  "stage_rank s \<le> n \<Longrightarrow> drive n s w = (outcome (fst (run_machine s w)), snd (run_machine s w))"
proof (induction n arbitrary: s w)
  case 0
  then show ?case by (cases s) (simp_all add: eret_def eraise_def)
next
  case (Suc n)
  show ?case
  proof (cases "final s")
    case True
    then show ?thesis by (cases s) (simp_all add: eret_def eraise_def)
  next
    case nf: False
    obtain r w1 where act: "stage_action s w = (r, w1)" by fastforce
    show ?thesis
    proof (cases r)
      case (Inl e)
      then show ?thesis using nf act by (simp add: drive_Suc ebind_def)
    next
      case (Inr s')
      have "stage_rank s' \<le> n" using stage_action_rank [OF nf] act Inr Suc.prems by fastforce
      then show ?thesis using Suc.IH nf act Inr by (simp add: drive_Suc ebind_def)
    qed
  qed
qed

text \<open>\<^verbatim>\<open>main\<close> is the machine run from \<open>Start\<close>, read off its final state.\<close>

lemma main_run_machine: "main w = (outcome (fst (run_machine Start w)), snd (run_machine Start w))"
  by (simp add: main_drive drive_run_machine)

lemma final_unique:
  assumes "stage_step\<^sup>*\<^sup>* c (t1, w1)" and "final t1"
    and "stage_step\<^sup>*\<^sup>* c (t2, w2)" and "final t2"
  shows "(t1, w1) = (t2, w2)"
  using assms
proof (induction c rule: converse_rtranclp_induct)
  case base
  then show ?case by (auto elim: converse_rtranclpE dest: final_no_step)
next
  case (step c c')
  note s1 = step.hyps(1) and ih = step.IH and p = step.prems
  from p(2) show ?case
  proof (cases rule: converse_rtranclpE)
    case base
    then show ?thesis using s1 p(3) by (metis final_no_step prod.collapse)
  next
    case (step c'')
    then have "c'' = c'" using s1 stage_step_deterministic by blast
    then show ?thesis using ih p step(2) by blast
  qed
qed

lemma main_final:
  "\<exists>t. final t \<and> stage_step\<^sup>*\<^sup>* (Start, w) (t, snd (main w)) \<and> fst (main w) = outcome t"
  using run_machine_reaches [of Start w] main_run_machine [of w] by auto

lemma keeps_dbs_stage_action:
  "(\<And>c cl. s \<noteq> RejectsSaved c cl) \<Longrightarrow> keeps w_dbs (stage_action s)"
  by (cases s) (auto simp: configure_def Let_def intro!: keeps_intros)

lemma never_fails_eret: "never_fails (eret x)"
  by (simp add: never_fails_def eret_def)

lemma step_keeps_dbs:
  assumes "stage_step (s, w) (s', w')" and "s' \<noteq> Loaded" and "s' \<noteq> Done"
  shows "w_dbs w' = w_dbs w"
proof (cases "\<exists>c cl. s = RejectsSaved c cl")
  case True
  then obtain c cl where s: "s = RejectsSaved c cl" by blast
  have "keeps_on_failure w_dbs (stage_action s)"
    unfolding s stage_action.simps
    by (rule keeps_on_failure_ebind_last [OF keeps_on_failure_dbs_load never_fails_eret])
  moreover have "stage_action s w = (Inl e, w')" if "s' = Failed e" for e
    using assms(1) that s
    by (auto elim!: stage_stepE simp: ebind_def eret_def split: prod.splits sum.splits)
  moreover have "\<exists>e. s' = Failed e"
    using assms s by (auto elim!: stage_stepE simp: ebind_def eret_def split: prod.splits sum.splits)
  ultimately show ?thesis unfolding keeps_on_failure_def by blast
next
  case False
  then have "keeps w_dbs (stage_action s)" by (intro keeps_dbs_stage_action) blast
  then show ?thesis using assms(1) by (auto elim!: stage_stepE dest: keeps_apply)
qed

lemma raises_only_quality_cols:
  "df_columns df = weather_columns \<Longrightarrow>
   raises_only not_key_error (\<lambda>(cl, rj). df_columns cl = weather_columns \<and> df_columns rj = weather_columns)
     (quality_checks df)"
  unfolding quality_checks_def
  by (rule raises_intros | simp add: weather_columns_def)+

lemma raises_only_configure: "raises_only not_key_error (\<lambda>_. True) configure"
  unfolding configure_def by (rule raises_intros | simp)+

lemma stage_action_ok:
  "stage_ok s \<Longrightarrow> raises_only not_key_error stage_ok (stage_action s)"
  apply (cases s)
  apply (simp_all add: Let_def)
  apply (rule raises_only_quality_cols raises_only_configure raises_intros
      | simp add: missing_required_def WEATHER_HOURLY_SCHEMA_def weather_columns_def)+
  done

lemma reach_keeps_dbs:
  "stage_step\<^sup>*\<^sup>* (Start, w) c \<Longrightarrow> fst c \<noteq> Loaded \<Longrightarrow> fst c \<noteq> Done \<Longrightarrow> w_dbs (snd c) = w_dbs w"
proof (induction rule: rtranclp_induct)
  case base
  then show ?case by simp
next
  case (step y z)
  obtain s1 w1 where y: "y = (s1, w1)" by fastforce
  have "s1 \<noteq> Loaded \<and> s1 \<noteq> Done"
    using step.hyps(2) step.prems y
    by (auto elim!: stage_stepE simp: log_msg_def ebind_def eret_def)
  then have "w_dbs w1 = w_dbs w" using step.IH y by simp
  then show ?case using step_keeps_dbs step.hyps(2) step.prems y by (metis prod.collapse)
qed

lemma reach_ok: "stage_step\<^sup>*\<^sup>* (Start, w) c \<Longrightarrow> stage_ok (fst c)"
proof (induction rule: rtranclp_induct)
  case base
  then show ?case by simp
next
  case (step y z)
  obtain s1 w1 where y: "y = (s1, w1)" by fastforce
  then have "raises_only not_key_error stage_ok (stage_action s1)"
    using step.IH by (intro stage_action_ok) simp
  then show ?case using step.hyps(2) y
    by (auto elim!: stage_stepE simp: raises_only_def split: sum.splits)
      (metis fst_conv sum.simps(5) sum.simps(6))+
qed

lemma load_failure_final:
  "stage_step\<^sup>*\<^sup>* (Start, load_failure_world) (Failed (DBError ''missing/etl.db''), snd (main load_failure_world))"
proof -
  obtain t where "final t" "stage_step\<^sup>*\<^sup>* (Start, load_failure_world) (t, snd (main load_failure_world))"
    "fst (main load_failure_world) = outcome t"
    using main_final by blast
  moreover have "fst (main load_failure_world) = Inl (DBError ''missing/etl.db'')"
    using main_load_failure_run by (metis fst_conv)
  ultimately show ?thesis by (cases t) auto
qed

subsection \<open>Properties of the orchestrator\<close>

text \<open>C1: \<^verbatim>\<open>main\<close> implements the specification's state machine: a run returns normally
  exactly when the machine goes from \<open>Start\<close> to \<open>Done\<close> in the same world, and raises
  \<open>e\<close> exactly when the machine ends in \<open>Failed e\<close>.\<close>

theorem main_refines_stage_machine:
  "(main w = (Inr (), w') \<longleftrightarrow> stage_step\<^sup>*\<^sup>* (Start, w) (Done, w')) \<and>
   (main w = (Inl e, w') \<longleftrightarrow> stage_step\<^sup>*\<^sup>* (Start, w) (Failed e, w'))"
proof -
  obtain t where t: "final t" "stage_step\<^sup>*\<^sup>* (Start, w) (t, snd (main w))" "fst (main w) = outcome t"
    using main_final by blast
  have done_iff: "main w = (Inr (), w') \<longleftrightarrow> stage_step\<^sup>*\<^sup>* (Start, w) (Done, w')"
  proof
    assume "main w = (Inr (), w')"
    then show "stage_step\<^sup>*\<^sup>* (Start, w) (Done, w')" using t by (cases t) auto
  next
    assume "stage_step\<^sup>*\<^sup>* (Start, w) (Done, w')"
    then have "(t, snd (main w)) = (Done, w')" using t final_unique by (metis final.simps(1))
    then show "main w = (Inr (), w')" using t(3) by (metis outcome.simps(1) prod.collapse prod.inject)
  qed
  have failed_iff: "main w = (Inl e, w') \<longleftrightarrow> stage_step\<^sup>*\<^sup>* (Start, w) (Failed e, w')"
  proof
    assume "main w = (Inl e, w')"
    then show "stage_step\<^sup>*\<^sup>* (Start, w) (Failed e, w')" using t by (cases t) auto
  next
    assume "stage_step\<^sup>*\<^sup>* (Start, w) (Failed e, w')"
    then have "(t, snd (main w)) = (Failed e, w')" using t final_unique by (metis final.simps(2))
    then show "main w = (Inl e, w')" using t(3) by (metis outcome.simps(2) prod.collapse prod.inject)
  qed
  show ?thesis using done_iff failed_iff by blast
qed

theorem main_refines_stage_machine_witness:
  "stage_step\<^sup>*\<^sup>* (Start, scenario_world) (Done, snd (main scenario_world))"
  using main_refines_stage_machine [of scenario_world "snd (main scenario_world)"] main_scenario_run
  by blast

text \<open>C13: in every state the machine reaches from \<open>Start\<close> before \<open>Loaded\<close>, failed states
  included, the databases are those of the start: a failure leaves no partial commit.\<close>

theorem stage_machine_no_partial_commit:
  assumes "stage_step\<^sup>*\<^sup>* (Start, w) (s, w')" and "s \<noteq> Loaded" and "s \<noteq> Done"
  shows "w_dbs w' = w_dbs w"
  using reach_keeps_dbs [OF assms(1)] assms(2,3) by simp

theorem stage_machine_no_partial_commit_witness:
  "w_dbs (snd (main load_failure_world)) = w_dbs load_failure_world"
  by (rule stage_machine_no_partial_commit [OF load_failure_final]) simp_all

text \<open>C14: every state reachable from \<open>Start\<close> is well formed: its frames have the schema's
  columns, and a failure is never the required-columns \<^verbatim>\<open>KeyError\<close>.\<close>

theorem stage_machine_well_formed:
  assumes "stage_step\<^sup>*\<^sup>* (Start, w) (s, w')"
  shows "stage_ok s"
  using reach_ok [OF assms] by simp

theorem stage_machine_well_formed_witness: "stage_ok (Failed (DBError ''missing/etl.db''))"
  by (rule stage_machine_well_formed [OF load_failure_final])

lemma keeps_file_at: "keeps w_files m \<Longrightarrow> keeps (\<lambda>w. w_files w p) m"
  by (simp add: keeps_def)

lemma keeps_files_load: "keeps w_files (load_to_sqlite df db tn)"
  by (simp add: keeps_def load_to_sqlite_apply)

lemma keeps_write_other: "p \<noteq> q \<Longrightarrow> keeps (\<lambda>w. w_files w p) (write_file q c)"
  by (simp add: keeps_def write_file_def)

lemma keeps_file_post_archive:
  assumes "post_archive s" and "p \<noteq> ''outputs/rejected_rows.csv''"
  shows "keeps (\<lambda>w. w_files w p) (stage_action s)"
  using assms
proof (cases s)
  case (QualityChecked c cl rj)
  show ?thesis unfolding QualityChecked stage_action.simps save_rejected_csv_def
    by (rule keeps_write_other | rule keeps_intros | simp add: assms(2))+
qed (auto simp: Let_def intro!: keeps_intros keeps_file_at keeps_stages keeps_files_load)

lemma post_archive_step: "stage_step (s, w) (s', w') \<Longrightarrow> post_archive s \<Longrightarrow> post_archive s'"
  by (cases s) (auto elim!: stage_stepE simp: ebind_def eret_def eraise_def log_msg_def Let_def
      split: prod.splits sum.splits if_splits)

lemma post_archive_keeps_file:
  "stage_step\<^sup>*\<^sup>* c c' \<Longrightarrow> post_archive (fst c) \<Longrightarrow> p \<noteq> ''outputs/rejected_rows.csv'' \<Longrightarrow>
   post_archive (fst c') \<and> w_files (snd c') p = w_files (snd c) p"
proof (induction rule: rtranclp_induct)
  case base
  then show ?case by simp
next
  case (step y z)
  then have py: "post_archive (fst y)" and fy: "w_files (snd y) p = w_files (snd c) p" by simp_all
  have "post_archive (fst z)" using post_archive_step step.hyps(2) py by (metis prod.collapse)
  moreover have "w_files (snd z) p = w_files (snd y) p"
    using step.hyps(2) keeps_file_post_archive [OF py step.prems(2)]
    by (cases y, cases z) (auto elim!: stage_stepE dest: keeps_apply)
  ultimately show ?case using fy by simp
qed

text \<open>C32: once the raw payload is archived, every later state of the machine, a failed
  one included, still has the archive file holding the payload: raw data is never lost
  after the \<open>Archived\<close> step (specification, section 4.8).\<close>

theorem stage_machine_archive_survives:
  assumes "stage_step (Extracted c raw, w) (Archived c raw, w1)"
    and "stage_step\<^sup>*\<^sup>* (Archived c raw, w1) (s, w2)"
  shows "read_json w2 (archive_path ''data/raw'' ''weather_raw'' (w_now w)) = Some raw"
proof -
  let ?p = "archive_path ''data/raw'' ''weather_raw'' (w_now w)"
  obtain path where "archive_raw_json raw ''data/raw'' ''weather_raw'' w = (Inr path, w1)"
    using assms(1) by (auto elim!: stage_stepE simp: ebind_def eret_def split: prod.splits sum.splits)
  then have w1: "w_files w1 ?p = Some (JsonFile raw)"
    using archive_raw_json_Inr_E by fastforce
  have "w_files w2 ?p = w_files w1 ?p"
    using post_archive_keeps_file [OF assms(2)] archive_path_not_rejects by simp
  then show ?thesis using w1 by (simp add: read_json_def)
qed

theorem stage_machine_archive_survives_witness:
  "read_json (snd (archive_raw_json JNull ''data/raw'' ''weather_raw'' initial_world))
     (archive_path ''data/raw'' ''weather_raw'' (w_now initial_world)) = Some JNull"
proof -
  let ?c = "\<lparr>cfg_base_url = ''u'', cfg_lat = 0, cfg_lon = 0, cfg_db_path = ''d'', cfg_tz = ''t''\<rparr>"
  have "stage_step (Extracted ?c JNull, initial_world)
          (Archived ?c JNull, snd (archive_raw_json JNull ''data/raw'' ''weather_raw'' initial_world))"
    by (rule stage_step.advance) (simp_all add: ebind_def eret_def archive_example)
  then show ?thesis by (rule stage_machine_archive_survives) (rule rtranclp.rtrancl_refl)
qed

end
