(* ===== verification/Spec2Isabelle.thy ===== *)
theory Spec2Isabelle
  imports Quality Extract Transform Sinks Load Orchestrator
begin

text \<open>
  \<^bold>\<open>A verification of the weather-API ETL pipeline\<close> (\<^verbatim>\<open>src/etl.py\<close>,
  \<^verbatim>\<open>src/functions.py\<close>, \<^verbatim>\<open>src/schema.py\<close>), as a shallow embedding in HOL.

  \<^medskip>\<^bold>\<open>The program.\<close> \<^verbatim>\<open>main\<close> (\<^verbatim>\<open>etl.py\<close>) sets up the logger, reads its configuration
  from the environment, and runs the stages of \<^verbatim>\<open>functions.py\<close> in order: the extractor
  (an HTTP GET with a bounded retry loop and linear backoff), the archiver (the raw payload
  as a UTC-stamped JSON file), the transformer (the hourly series into a three-column
  DataFrame with coerced cells), a required-columns check, the quality gate (validity mask,
  split, deduplication by time keeping the first row), the rejects sink (a CSV file) and
  the loader (full replacement of a SQLite table). Any exception ends the run.

  \<^medskip>\<^bold>\<open>Theories.\<close>
  \<^item> \<open>Etl_Prelude\<close>: the error type (one constructor per exception class the program
    raises), decimal digit strings (\<^verbatim>\<open>int\<close>, \<^verbatim>\<open>str\<close>, zero padding) and the collection
    \<open>etl_simps\<close>.
  \<^item> \<open>Py_Float\<close>: Python's \<^verbatim>\<open>float(str)\<close> (whitespace, sign, digits with underscores,
    fraction, exponent, \<^verbatim>\<open>inf\<close>/\<^verbatim>\<open>nan\<close>) and \<^verbatim>\<open>repr\<close> of a string for its error
    message, modelled from the Python documentation; the decimal-literal parser is shared
    with pandas' C float parser.
  \<^item> \<open>Json\<close>, \<open>Frame\<close>, \<open>Schema\<close>: JSON values and \<^verbatim>\<open>dict.get\<close>; rows and frames (a
    DataFrame without its index); the schema dict of \<^verbatim>\<open>schema.py\<close> as a record.
  \<^item> \<open>World\<close>: the outside world as a record threaded through every operation (files,
    directories, SQLite databases, the log, sleeps, the network as the sequence of its
    answers, the clock, the environment, the paths the system refuses). An operation is
    \<open>'a eff = world \<Rightarrow> (error + 'a) \<times> world\<close>; \<open>ebind\<close> is sequencing with exceptions,
    \<open>ecatch\<close> is \<^verbatim>\<open>try/except\<close>. \<^verbatim>\<open>os.makedirs\<close>, \<^verbatim>\<open>open\<close> for writing and appending,
    \<^verbatim>\<open>os.path.dirname\<close> and \<^verbatim>\<open>os.path.join\<close> are modelled here from their documentation.
  \<^item> \<open>Eff_Logic\<close>: frame rules (\<open>keeps\<close>, \<open>keeps_on_failure\<close>) and exception triples
    (\<open>raises_only\<close>) for the operations, in the collections \<open>keeps_intros\<close> and
    \<open>raises_intros\<close>.
  \<^item> \<open>Quality\<close>: \<^verbatim>\<open>quality_checks\<close> (lines 98--115) and pandas' \<^verbatim>\<open>drop_duplicates\<close>.
  \<^item> \<open>Extract\<close>: \<^verbatim>\<open>extract_weather_api\<close> (lines 52--72): one request as the next answer of
    the network, \<^verbatim>\<open>raise_for_status\<close> and \<^verbatim>\<open>r.json()\<close>, the retry loop.
  \<^item> \<open>Transform\<close>: \<^verbatim>\<open>transform_weather_hourly\<close> (lines 76--93), pandas' DataFrame
    constructor on three columns, \<^verbatim>\<open>to_datetime\<close>/\<^verbatim>\<open>to_numeric\<close> with
    \<^verbatim>\<open>errors="coerce"\<close>: numbers, booleans and numeric strings per cell; the time
    column as a whole, with the layout pandas guesses from its first non-null string, or
    epoch nanoseconds for numbers; calendar validity and pandas' timestamp range.
  \<^item> \<open>Sinks\<close>: \<^verbatim>\<open>setup_logger\<close> (lines 14--31), \<^verbatim>\<open>archive_raw_json\<close> (34--41),
    \<^verbatim>\<open>save_rejected_csv\<close> (44--47).
  \<^item> \<open>Load\<close>: \<^verbatim>\<open>load_to_sqlite\<close> (lines 118--121).
  \<^item> \<open>Pipeline\<close>: \<^verbatim>\<open>main\<close> (\<^verbatim>\<open>etl.py\<close> lines 16--60) as one chain of the stages, and the
    properties of whole runs.
  \<^item> \<open>Orchestrator\<close>: the state machine of the specification (section 4.8) as an inductive
    step relation whose step runs the code's call for its stage; \<open>main\<close> is proved to be
    this machine run from \<open>Start\<close>.

  \<^medskip>\<^bold>\<open>What is proved.\<close> For each component: its result on every branch, errors
  included (the \<open>_Inr_E\<close> lemmas and the claims of each theory); the quality gate's
  invariants (accepted rows valid and unique by time, exact partition, order kept,
  idempotence, the log counts) and the equivalence of pandas' one-pass deduplication with
  the first-occurrence reading; the extractor's behaviour on every network history and its
  bound of at most \<open>retries\<close> requests; the injectivity of the archive's names; the
  logger set-up creating missing directories; the time column read cell by cell when its
  strings share the guessed layout; replacement and idempotence of the load. For whole runs: a failed run leaves the
  databases unchanged, a successful run leaves exactly the valid first-per-time rows in
  the table and the invalid rows in the rejects file, a second run on the same payload leaves the
  databases as the first left them, no run raises \<^verbatim>\<open>KeyError\<close>, and a
  \<^verbatim>\<open>LAT\<close> that \<^verbatim>\<open>float\<close> rejects ends the run before any request. For the machine:
  refinement by \<open>main\<close>, no partial commit before
  \<open>Loaded\<close>, the raw archive kept in every state after \<open>Archived\<close>, and well-formed states
  (frames with the schema's columns, no \<^verbatim>\<open>KeyError\<close> failure).

  \<^medskip>\<^bold>\<open>Findings.\<close> The required-columns check of \<^verbatim>\<open>main\<close> is unreachable (the
  transformer always builds the schema's columns; a missing series fails earlier in the
  DataFrame constructor). \<^verbatim>\<open>retries <= 0\<close> makes the extractor return \<^verbatim>\<open>None\<close> instead of
  failing. A rejects or log path without a directory fails in \<^verbatim>\<open>os.makedirs('')\<close>. Two
  archives in the same UTC second overwrite each other. \<^verbatim>\<open>raise_for_status\<close> accepts
  non-2xx statuses below 400. The quality gate hard-codes the schema's humidity range.

  \<^medskip>\<^bold>\<open>Bounds and fuel.\<close> No loop of the program needs fuel: the retry loop is
  structural recursion over \<^verbatim>\<open>range(1, retries + 1)\<close>, the per-row passes over lists. The
  machine's runner \<open>run_machine\<close> is a \<open>function\<close> whose termination is proved by the rank
  of the stage. The unfolding of \<open>main\<close>
  into machine steps goes through \<open>drive\<close>, which takes fuel; nine (the rank of \<open>Start\<close>)
  is proved enough for every path, and \<open>drive\<close> with enough fuel equals \<open>run_machine\<close>. Integers of the program are Python's unbounded ones (\<open>int\<close>, \<open>nat\<close>),
  floats are reals (no rounding is observable in the code's decisions: the comparisons
  \<open>0 \<le> h \<le> 100\<close> and equality of parsed timestamps); a decimal literal is read as the
  exact number it denotes.

  \<^medskip>\<^bold>\<open>Not modelled.\<close> The text of the files (\<^verbatim>\<open>json.dump\<close> and \<^verbatim>\<open>to_csv\<close>
  serialisation; a file holds the value written), the console handler, level and format
  of the logger (the log is the list of events), the parsing of \<^verbatim>\<open>.env\<close> by
  \<^verbatim>\<open>load_dotenv\<close> (the world's environment is the one after it); date strings outside
  the ISO layouts, which pandas' \<^verbatim>\<open>dateutil\<close> fallback may accept, an \<^verbatim>\<open>inf\<close> numeric
  string and a sub-second epoch instant (each reads as null, pandas keeps a value); a JSON
  dict used as a DataFrame column and \<^verbatim>\<open>float\<close> of \<^verbatim>\<open>inf\<close> or \<^verbatim>\<open>nan\<close> (outside the model,
  \<open>Unmodelled\<close>); characters beyond Latin-1 in \<^verbatim>\<open>repr\<close> and \<^verbatim>\<open>float\<close>; the HTTP protocol below \<^verbatim>\<open>requests\<close> (the network is the
  sequence of outcomes the run observes), and concurrent runs (the specification assumes
  none).
\<close>

end
